theory Spec2Isabelle
  imports Main
begin

section \<open>Events (module ng2-rike/event)\<close>

text \<open>
  The event classes \<^verbatim>\<open>RikeOperationEvent\<close>, \<^verbatim>\<open>RikeSuccessEvent\<close>, \<^verbatim>\<open>RikeErrorEvent\<close> and
  \<^verbatim>\<open>RikeCancelEvent\<close> are the constructors of one datatype; each constructor keeps the
  private fields its JavaScript constructor assigns. \<open>'op\<close> is the type of operations,
  \<open>'x\<close> the type of the JavaScript values the library only passes around (decoded
  results, thrown values). A value that an event getter can return is a \<open>jv\<close>: the
  value \<^verbatim>\<open>undefined\<close>, such an opaque value, a string, or (a reference to) an event.

  \<^verbatim>\<open>RikeCancelEvent\<close> extends \<^verbatim>\<open>RikeErrorEvent\<close>: its second field is the inherited
  \<^verbatim>\<open>_error\<close>, its third field is its own \<^verbatim>\<open>_cancelledBy\<close> (\<open>None\<close> when the constructor
  was called without a second argument).
\<close>

datatype ('op, 'x) event =
    RikeOperationEvent 'op
  | RikeSuccessEvent 'op "('op, 'x) jv"
  | RikeErrorEvent 'op "('op, 'x) jv"
  | RikeCancelEvent 'op "('op, 'x) jv" "('op, 'x) event option"
and ('op, 'x) jv =
    Undefined
  | Opaque 'x
  | Str string
  | EventRef "('op, 'x) event"

text \<open>
  The constructor of \<^verbatim>\<open>RikeCancelEvent\<close>:
  \<^verbatim>\<open>_super.call(this, operation, _cancelledBy || "cancel"); this._cancelledBy = _cancelledBy;\<close>
\<close>

definition new_RikeCancelEvent :: "'op \<Rightarrow> ('op, 'x) event option \<Rightarrow> ('op, 'x) event" where
  "new_RikeCancelEvent operation cancelledBy =
     RikeCancelEvent operation
       (case cancelledBy of None \<Rightarrow> Str ''cancel'' | Some by \<Rightarrow> EventRef by)
       cancelledBy"

text \<open>The getters, each with the overriding the class hierarchy gives it.\<close>

fun ev_operation :: "('op, 'x) event \<Rightarrow> 'op" where
  "ev_operation (RikeOperationEvent operation) = operation"
| "ev_operation (RikeSuccessEvent operation r) = operation"
| "ev_operation (RikeErrorEvent operation e) = operation"
| "ev_operation (RikeCancelEvent operation e c) = operation"

fun ev_complete :: "('op, 'x) event \<Rightarrow> bool" where
  "ev_complete (RikeOperationEvent operation) = False"
| "ev_complete (RikeSuccessEvent operation r) = True"
| "ev_complete (RikeErrorEvent operation e) = True"
| "ev_complete (RikeCancelEvent operation e c) = True"

fun ev_cancel :: "('op, 'x) event \<Rightarrow> bool" where
  "ev_cancel (RikeCancelEvent operation e c) = True"
| "ev_cancel other = False"

fun ev_cancelledBy :: "('op, 'x) event \<Rightarrow> ('op, 'x) jv" where
  "ev_cancelledBy (RikeCancelEvent operation e None) = Undefined"
| "ev_cancelledBy (RikeCancelEvent operation e (Some by)) = EventRef by"
| "ev_cancelledBy other = Undefined"

fun ev_error :: "('op, 'x) event \<Rightarrow> ('op, 'x) jv" where
  "ev_error (RikeOperationEvent operation) = Undefined"
| "ev_error (RikeSuccessEvent operation r) = Undefined"
| "ev_error (RikeErrorEvent operation e) = e"
| "ev_error (RikeCancelEvent operation e c) = ev_cancelledBy (RikeCancelEvent operation e c)"

fun ev_result :: "('op, 'x) event \<Rightarrow> ('op, 'x) jv" where
  "ev_result (RikeSuccessEvent operation r) = r"
| "ev_result other = Undefined"

section \<open>The target and its in-flight operation (class RikeTargetImpl)\<close>

text \<open>
  The observer of a wrapped response (an \<^verbatim>\<open>rxjs\<close> subscriber) belongs to the caller. The
  target calls its methods \<^verbatim>\<open>next\<close>, \<^verbatim>\<open>error\<close> and \<^verbatim>\<open>complete\<close>; each call either returns
  (\<open>None\<close>) or throws a value (\<open>Some e\<close>). An observer of this model does nothing else in
  its callbacks: a callback that calls back into the target is outside the model.
\<close>

record ('op, 'x) observer =
  obs_next :: "('op, 'x) jv \<Rightarrow> ('op, 'x) jv option"
  obs_error :: "('op, 'x) jv \<Rightarrow> ('op, 'x) jv option"
  obs_complete :: "('op, 'x) jv option"

text \<open>
  The event emitter \<^verbatim>\<open>_rikeEvents\<close> is an \<^verbatim>\<open>EventEmitter\<close> of the framework, an \<^verbatim>\<open>rxjs\<close>
  subject. The target calls two of its methods, \<^verbatim>\<open>emit(event)\<close> and \<^verbatim>\<open>error(event)\<close>. The
  model keeps the calls made on the emitter, oldest first.

  \<^verbatim>\<open>emit\<close> delivers the event to the \<^verbatim>\<open>next\<close> handlers of the subscribers. \<^verbatim>\<open>error\<close> delivers
  it to their \<^verbatim>\<open>error\<close> handlers and ends the emitter: no later call delivers anything.
  What a later call does instead is the library's, and differs between versions of
  \<^verbatim>\<open>rxjs\<close>: it throws a value (version 5.0.0-beta.6 throws an \<^verbatim>\<open>ObjectUnsubscribedError\<close>)
  or it returns. The field \<open>t_after_end\<close> of the target below says which: \<open>Some e\<close> when
  the call throws \<open>e\<close>, \<open>None\<close> when it returns. The handlers of the subscribers are
  taken to return normally and not to call back into the target.
\<close>

datatype ('op, 'x) emitter_call =
    Emit "('op, 'x) event"
  | Error "('op, 'x) event"

text \<open>
  The mutable fields of a target: \<^verbatim>\<open>_operation\<close> (the start event of the operation in
  flight), \<^verbatim>\<open>_response\<close> (the transport's response stream, by its identity),
  \<^verbatim>\<open>_observer\<close>, \<^verbatim>\<open>_subscr\<close> (the subscription to the transport's stream, by its
  identity), the calls made on \<^verbatim>\<open>_rikeEvents\<close>, and the subscriptions on which
  \<^verbatim>\<open>unsubscribe()\<close> was called. \<^verbatim>\<open>unsubscribe()\<close> is taken to return normally.
\<close>

record ('op, 'x) target =
  t_operation :: "('op, 'x) event option"
  t_response :: "nat option"
  t_observer :: "('op, 'x) observer option"
  t_subscr :: "nat option"
  t_rikeEvents :: "('op, 'x) emitter_call list"
  t_unsubscribed :: "nat list"
  t_after_end :: "('op, 'x) jv option"

definition new_target :: "('op, 'x) jv option \<Rightarrow> ('op, 'x) target" where
  "new_target after_end =
     \<lparr>t_operation = None, t_response = None, t_observer = None, t_subscr = None,
      t_rikeEvents = [], t_unsubscribed = [], t_after_end = after_end\<rparr>"

text \<open>
  The emitter has ended when \<^verbatim>\<open>error\<close> was called on it. The calls that delivered their
  event are those up to the first call of \<^verbatim>\<open>error\<close>, that call included.
\<close>

fun is_error_call :: "('op, 'x) emitter_call \<Rightarrow> bool" where
  "is_error_call (Error ev) = True"
| "is_error_call (Emit ev) = False"

definition emitter_ended :: "('op, 'x) target \<Rightarrow> bool" where
  "emitter_ended t = list_ex is_error_call (t_rikeEvents t)"

fun delivered :: "('op, 'x) emitter_call list \<Rightarrow> ('op, 'x) emitter_call list" where
  "delivered [] = []"
| "delivered (Emit ev # calls) = Emit ev # delivered calls"
| "delivered (Error ev # calls) = [Error ev]"

text \<open>
  \<^verbatim>\<open>this._rikeEvents.emit(ev)\<close> and \<^verbatim>\<open>this._rikeEvents.error(ev)\<close>: the value thrown, if any,
  and the target with the call recorded.
\<close>

definition rikeEvents_emit ::
  "('op, 'x) event \<Rightarrow> ('op, 'x) target \<Rightarrow> ('op, 'x) jv option \<times> ('op, 'x) target"
where
  "rikeEvents_emit ev t =
     (if emitter_ended t then t_after_end t else None,
      t\<lparr>t_rikeEvents := t_rikeEvents t @ [Emit ev]\<rparr>)"

definition rikeEvents_error ::
  "('op, 'x) event \<Rightarrow> ('op, 'x) target \<Rightarrow> ('op, 'x) jv option \<times> ('op, 'x) target"
where
  "rikeEvents_error ev t =
     (if emitter_ended t then t_after_end t else None,
      t\<lparr>t_rikeEvents := t_rikeEvents t @ [Error ev]\<rparr>)"

text \<open>The getter \<^verbatim>\<open>currentOperation\<close>: \<^verbatim>\<open>this._operation && this._operation.operation\<close>.\<close>

definition currentOperation :: "('op, 'x) target \<Rightarrow> 'op option" where
  "currentOperation t =
     (case t_operation t of None \<Rightarrow> None | Some current \<Rightarrow> Some (ev_operation current))"

text \<open>
  \<^verbatim>\<open>_cancel(cause)\<close>. The result is \<open>Inr\<close> of the returned boolean, or \<open>Inl\<close> of the value
  the method throws; the target's fields after the call come with it either way.

  Inside \<^verbatim>\<open>if (this._observer)\<close>: the \<^verbatim>\<open>try\<close> block calls \<^verbatim>\<open>this._observer.error(cancel)\<close>
  and then \<^verbatim>\<open>this._rikeEvents.error(cancel)\<close>; what either throws goes to the \<^verbatim>\<open>catch\<close>
  block, which passes an error event to the emitter and throws the value again (or
  what the emitter throws); the \<^verbatim>\<open>finally\<close> block clears \<^verbatim>\<open>_operation\<close>, calls
  \<^verbatim>\<open>this._observer.complete()\<close> and clears \<^verbatim>\<open>_observer\<close>. An exception leaving a
  \<^verbatim>\<open>finally\<close> block replaces the one that was pending.
\<close>

definition cancel_cause ::
  "('op, 'x) event option \<Rightarrow> ('op, 'x) target \<Rightarrow> (('op, 'x) jv + bool) \<times> ('op, 'x) target"
where
  "cancel_cause cause t =
     (case t_operation t of
        None \<Rightarrow> (Inr False, t)
      | Some current \<Rightarrow>
          let t1 = t\<lparr>t_response := None\<rparr>;
              (thrown, t2) =
                (case t_observer t1 of
                   None \<Rightarrow> (None, t1)
                 | Some obs \<Rightarrow>
                     let cancel = new_RikeCancelEvent (ev_operation current) cause;
                         (thrown_try, ta) =
                           (case obs_error obs (EventRef cancel) of
                              Some e \<Rightarrow> (Some e, t1)
                            | None \<Rightarrow> rikeEvents_error cancel t1);
                         (thrown_catch, tb) =
                           (case thrown_try of
                              None \<Rightarrow> (None, ta)
                            | Some e \<Rightarrow>
                                (case rikeEvents_error (RikeErrorEvent (ev_operation current) e) ta of
                                   (Some e', tb') \<Rightarrow> (Some e', tb')
                                 | (None, tb') \<Rightarrow> (Some e, tb')));
                         tc = tb\<lparr>t_operation := None\<rparr>;
                         thrown_complete = obs_complete obs;
                         td = tc\<lparr>t_observer := None\<rparr>
                     in (case thrown_complete of Some e2 \<Rightarrow> Some e2 | None \<Rightarrow> thrown_catch, td));
              t3 =
                (case t_subscr t2 of
                   None \<Rightarrow> t2
                 | Some subscr \<Rightarrow>
                     t2\<lparr>t_unsubscribed := t_unsubscribed t2 @ [subscr], t_subscr := None\<rparr>)
          in (case thrown of Some e \<Rightarrow> Inl e | None \<Rightarrow> Inr True, t3))"

text \<open>\<^verbatim>\<open>cancel()\<close> is \<^verbatim>\<open>this._cancel()\<close>: the cause is \<^verbatim>\<open>undefined\<close>.\<close>

definition cancel :: "('op, 'x) target \<Rightarrow> (('op, 'x) jv + bool) \<times> ('op, 'x) target" where
  "cancel t = cancel_cause None t"

text \<open>
  \<^verbatim>\<open>startOperation(operation)\<close>: the start event is created, the operation in flight is
  cancelled with the start event as the cause, then the start event is emitted and
  stored in \<^verbatim>\<open>_operation\<close>. When \<^verbatim>\<open>_cancel\<close> throws, the last two steps do not happen;
  when \<^verbatim>\<open>emit\<close> throws, the last one does not.
\<close>

definition startOperation ::
  "'op \<Rightarrow> ('op, 'x) target \<Rightarrow> (('op, 'x) jv + unit) \<times> ('op, 'x) target"
where
  "startOperation operation t =
     (let event = RikeOperationEvent operation in
      case cancel_cause (Some event) t of
        (Inl e, t1) \<Rightarrow> (Inl e, t1)
      | (Inr cancelled, t1) \<Rightarrow>
          (case rikeEvents_emit event t1 of
             (Some e, t2) \<Rightarrow> (Inl e, t2)
           | (None, t2) \<Rightarrow> (Inr (), t2\<lparr>t_operation := Some event\<rparr>)))"

text \<open>
  \<^verbatim>\<open>wrapResponse(operation, response)\<close> stores the response stream in \<^verbatim>\<open>_response\<close> and
  returns a new observable. The observable is the pair of the operation and the
  response stream its subscriber function closes over.
\<close>

definition wrapResponse :: "'op \<Rightarrow> nat \<Rightarrow> ('op, 'x) target \<Rightarrow> ('op \<times> nat) \<times> ('op, 'x) target" where
  "wrapResponse operation response t = ((operation, response), t\<lparr>t_response := Some response\<rparr>)"

text \<open>
  Subscribing to the wrapped observable runs its subscriber function: nothing happens
  when another response has replaced this one; otherwise the observer is stored and the
  transport's stream is subscribed, which yields the subscription \<open>subscr\<close>. The
  transport delivers later, through the three callbacks below.
\<close>

definition subscribe ::
  "'op \<times> nat \<Rightarrow> ('op, 'x) observer \<Rightarrow> nat \<Rightarrow> ('op, 'x) target \<Rightarrow> ('op, 'x) target"
where
  "subscribe wrapped responseObserver subscr t =
     (if t_response t \<noteq> Some (snd wrapped) then t
      else t\<lparr>t_observer := Some responseObserver, t_subscr := Some subscr\<rparr>)"

definition cleanup :: "('op, 'x) target \<Rightarrow> ('op, 'x) target" where
  "cleanup t =
     (let t1 = t\<lparr>t_response := None, t_operation := None\<rparr> in
      case t_subscr t1 of
        None \<Rightarrow> t1
      | Some subscr \<Rightarrow> t1\<lparr>t_unsubscribed := t_unsubscribed t1 @ [subscr], t_subscr := None\<rparr>)"

text \<open>
  The callbacks passed to \<^verbatim>\<open>response.subscribe\<close>, each with the value it throws to the
  transport, if any. \<open>decoded\<close> is the outcome of
  \<^verbatim>\<open>operation.protocol.readResponse(httpResponse)\<close>: the decoded value or the value thrown.
  In each callback the \<^verbatim>\<open>catch\<close> block passes an error event with the value caught to
  the emitter.
\<close>

definition on_next ::
  "'op \<Rightarrow> ('op, 'x) observer \<Rightarrow> ('op, 'x) jv + ('op, 'x) jv \<Rightarrow> ('op, 'x) target \<Rightarrow>
   ('op, 'x) jv option \<times> ('op, 'x) target"
where
  "on_next operation responseObserver decoded t =
     (case decoded of
        Inl e \<Rightarrow> rikeEvents_error (RikeErrorEvent operation e) t
      | Inr response \<Rightarrow>
          (case obs_next responseObserver response of
             Some e \<Rightarrow> rikeEvents_error (RikeErrorEvent operation e) t
           | None \<Rightarrow>
               (case rikeEvents_emit (RikeSuccessEvent operation response) t of
                  (Some e, t1) \<Rightarrow> rikeEvents_error (RikeErrorEvent operation e) t1
                | (None, t1) \<Rightarrow> (None, t1))))"

definition on_error ::
  "'op \<Rightarrow> ('op, 'x) observer \<Rightarrow> ('op, 'x) jv \<Rightarrow> ('op, 'x) target \<Rightarrow>
   ('op, 'x) jv option \<times> ('op, 'x) target"
where
  "on_error operation responseObserver error t =
     (case
        (case obs_error responseObserver error of
           Some e \<Rightarrow> rikeEvents_error (RikeErrorEvent operation e) t
         | None \<Rightarrow>
             (case rikeEvents_emit (RikeErrorEvent operation error) t of
                (Some e, t1) \<Rightarrow> rikeEvents_error (RikeErrorEvent operation e) t1
              | (None, t1) \<Rightarrow> (None, t1)))
      of (thrown, t2) \<Rightarrow> (thrown, cleanup t2))"

definition on_complete ::
  "'op \<Rightarrow> ('op, 'x) observer \<Rightarrow> ('op, 'x) target \<Rightarrow> ('op, 'x) jv option \<times> ('op, 'x) target"
where
  "on_complete operation responseObserver t =
     (case
        (case obs_complete responseObserver of
           Some e \<Rightarrow> rikeEvents_error (RikeErrorEvent operation e) t
         | None \<Rightarrow> (None, t))
      of (thrown, t2) \<Rightarrow> (thrown, cleanup t2))"

text \<open>
  The verb methods of an operation (\<^verbatim>\<open>load\<close>, \<^verbatim>\<open>send\<close>, \<^verbatim>\<open>get\<close>, \<^verbatim>\<open>post\<close>, \<^verbatim>\<open>put\<close>,
  \<^verbatim>\<open>delete\<close>, \<^verbatim>\<open>patch\<close>, \<^verbatim>\<open>head\<close>) share one body:
  \<^verbatim>\<open>try { this.startOperation(); options = ...; return this.wrapResponse(this.internals.m(...)); }
  catch (e) { this.target.rikeEvents.error(new RikeErrorEvent(this, e)); throw e; }\<close>
  They differ in how the request is prepared and which method of the transport is
  called. \<open>request\<close> is the outcome of that middle part: the response stream the transport
  returns, or the value thrown on the way. \<open>report\<close> is the \<^verbatim>\<open>catch\<close> block.
\<close>

definition report ::
  "'op \<Rightarrow> ('op, 'x) jv \<Rightarrow> ('op, 'x) target \<Rightarrow> (('op, 'x) jv + 'op \<times> nat) \<times> ('op, 'x) target"
where
  "report operation e t =
     (case rikeEvents_error (RikeErrorEvent operation e) t of
        (Some e', t1) \<Rightarrow> (Inl e', t1)
      | (None, t1) \<Rightarrow> (Inl e, t1))"

definition verb ::
  "'op \<Rightarrow> ('op, 'x) jv + nat \<Rightarrow> ('op, 'x) target \<Rightarrow>
   (('op, 'x) jv + 'op \<times> nat) \<times> ('op, 'x) target"
where
  "verb operation request t =
     (case startOperation operation t of
        (Inl e, t1) \<Rightarrow> report operation e t1
      | (Inr started, t1) \<Rightarrow>
          (case request of
             Inl e \<Rightarrow> report operation e t1
           | Inr response \<Rightarrow>
               (case wrapResponse operation response t1 of
                  (wrapped, t2) \<Rightarrow> (Inr wrapped, t2))))"

text \<open>
  Observing the emitter: the event a call carries, and the calls made on the emitter
  between an earlier state \<open>t\<close> of the target and a later one \<open>t'\<close>.
\<close>

fun call_event :: "('op, 'x) emitter_call \<Rightarrow> ('op, 'x) event" where
  "call_event (Emit ev) = ev"
| "call_event (Error ev) = ev"

definition calls_since ::
  "('op, 'x) target \<Rightarrow> ('op, 'x) target \<Rightarrow> ('op, 'x) emitter_call list"
where
  "calls_since t t' = drop (length (t_rikeEvents t)) (t_rikeEvents t')"

section \<open>Protocols (module ng2-rike/protocol)\<close>

text \<open>
  JavaScript is untyped: request options, request bodies, transport responses, decoded
  values and errors are all values of one type \<open>'a\<close>. A function of the caller either
  returns a value (\<open>Inr\<close>) or throws one (\<open>Inl\<close>); \<open>and_then\<close> is the sequencing of two
  such calls, \<^verbatim>\<open>g(f(x))\<close>.
\<close>

definition and_then :: "'e + 'a \<Rightarrow> ('a \<Rightarrow> 'e + 'b) \<Rightarrow> 'e + 'b" where
  "and_then r g = (case r of Inl e \<Rightarrow> Inl e | Inr v \<Rightarrow> g v)"

text \<open>
  The two leaves \<^verbatim>\<open>JsonProtocol\<close> and \<^verbatim>\<open>HttpProtocol\<close> write and read through the HTTP
  library and \<^verbatim>\<open>JSON\<close>, which are not part of this repository. Their operations are
  parameters of the model:
  \<^item> \<open>merge_body options body\<close> is \<^verbatim>\<open>new RequestOptions(options).merge({body: body})\<close>;
  \<^item> \<open>json_stringify request\<close> is \<^verbatim>\<open>JSON.stringify(request)\<close>;
  \<^item> \<open>set_json_content_type opts\<close> is \<open>opts\<close> after the lines that give it a \<^verbatim>\<open>Headers\<close>
    object when it has none and call \<^verbatim>\<open>headers.set("Content-Type", "application/json")\<close>;
  \<^item> \<open>response_json response\<close> is \<^verbatim>\<open>response.json()\<close>.

  Each of them returns a value or throws one.
\<close>

record 'a http_lib =
  merge_body :: "'a \<Rightarrow> 'a \<Rightarrow> 'a + 'a"
  json_stringify :: "'a \<Rightarrow> 'a + 'a"
  set_json_content_type :: "'a \<Rightarrow> 'a + 'a"
  response_json :: "'a \<Rightarrow> 'a + 'a"

text \<open>
  A protocol is an object of one of the classes of the module. The decorating classes
  keep the wrapped protocol, the function they were given and the own property
  \<^verbatim>\<open>handleError\<close> their constructor assigns (\<open>None\<close> is \<^verbatim>\<open>undefined\<close>). \<^verbatim>\<open>HttpProtocol\<close> and
  \<^verbatim>\<open>JsonProtocol\<close> are not exported: their only instances are the constants
  \<^verbatim>\<open>HTTP_PROTOCOL\<close> and \<^verbatim>\<open>JSON_PROTOCOL\<close>, so the comparison \<^verbatim>\<open>=== HTTP_PROTOCOL\<close> is the
  test for the constructor \<open>HttpProtocol\<close>. \<open>UserProtocol\<close> stands for an object of a
  class the caller derives from \<^verbatim>\<open>Protocol\<close>, with its three methods and its
  \<^verbatim>\<open>handleError\<close> property, the inherited combinators left as they are. Properties are
  not reassigned after construction.
\<close>

datatype 'a protocol =
    HttpProtocol
  | JsonProtocol
  | UserProtocol "'a \<Rightarrow> 'a + 'a" "'a \<Rightarrow> 'a \<Rightarrow> 'a + 'a" "'a \<Rightarrow> 'a + 'a" "('a \<Rightarrow> 'a + 'a) option"
  | PrepareRequestProtocol "'a protocol" "'a \<Rightarrow> 'a + 'a" bool "('a \<Rightarrow> 'a + 'a) option"
  | WriteRequestProtocol "'a protocol" "'a \<Rightarrow> 'a \<Rightarrow> 'a + 'a" "('a \<Rightarrow> 'a + 'a) option"
  | ReadResponseProtocol "'a protocol" "'a \<Rightarrow> 'a + 'a" "('a \<Rightarrow> 'a + 'a) option"
  | HandleErrorProtocol "'a protocol" "'a \<Rightarrow> 'a + 'a"

text \<open>The property \<^verbatim>\<open>handleError\<close> of a protocol.\<close>

fun handleError :: "'a protocol \<Rightarrow> ('a \<Rightarrow> 'a + 'a) option" where
  "handleError HttpProtocol = None"
| "handleError JsonProtocol = None"
| "handleError (UserProtocol prepare write read handler) = handler"
| "handleError (PrepareRequestProtocol p prepare after handler) = handler"
| "handleError (WriteRequestProtocol p write handler) = handler"
| "handleError (ReadResponseProtocol p read handler) = handler"
| "handleError (HandleErrorProtocol p handler) = Some handler"

text \<open>The methods \<^verbatim>\<open>prepareRequest\<close>, \<^verbatim>\<open>writeRequest\<close> and \<^verbatim>\<open>readResponse\<close>, class by class.\<close>

fun prepareRequest :: "'a protocol \<Rightarrow> 'a \<Rightarrow> 'a + 'a" where
  "prepareRequest HttpProtocol options = Inr options"
| "prepareRequest JsonProtocol options = Inr options"
| "prepareRequest (UserProtocol prepare write read handler) options = prepare options"
| "prepareRequest (PrepareRequestProtocol p prepare after handler) options =
     (if after then and_then (prepareRequest p options) prepare
      else and_then (prepare options) (prepareRequest p))"
| "prepareRequest (WriteRequestProtocol p write handler) options = prepareRequest p options"
| "prepareRequest (ReadResponseProtocol p read handler) options = prepareRequest p options"
| "prepareRequest (HandleErrorProtocol p handler) options = prepareRequest p options"

fun writeRequest :: "'a http_lib \<Rightarrow> 'a protocol \<Rightarrow> 'a \<Rightarrow> 'a \<Rightarrow> 'a + 'a" where
  "writeRequest lib HttpProtocol request options = merge_body lib options request"
| "writeRequest lib JsonProtocol request options =
     and_then (and_then (json_stringify lib request) (merge_body lib options))
       (set_json_content_type lib)"
| "writeRequest lib (UserProtocol prepare write read handler) request options =
     write request options"
| "writeRequest lib (PrepareRequestProtocol p prepare after handler) request options =
     writeRequest lib p request options"
| "writeRequest lib (WriteRequestProtocol p write handler) request options =
     write request options"
| "writeRequest lib (ReadResponseProtocol p read handler) request options =
     writeRequest lib p request options"
| "writeRequest lib (HandleErrorProtocol p handler) request options =
     writeRequest lib p request options"

fun readResponse :: "'a http_lib \<Rightarrow> 'a protocol \<Rightarrow> 'a \<Rightarrow> 'a + 'a" where
  "readResponse lib HttpProtocol response = Inr response"
| "readResponse lib JsonProtocol response = response_json lib response"
| "readResponse lib (UserProtocol prepare write read handler) response = read response"
| "readResponse lib (PrepareRequestProtocol p prepare after handler) response =
     readResponse lib p response"
| "readResponse lib (WriteRequestProtocol p write handler) response =
     readResponse lib p response"
| "readResponse lib (ReadResponseProtocol p read handler) response = read response"
| "readResponse lib (HandleErrorProtocol p handler) response = readResponse lib p response"

text \<open>
  The combinators. Each constructor of a decorating class copies the wrapped protocol's
  \<^verbatim>\<open>handleError\<close> into the new object (\<^verbatim>\<open>this.handleError = this._protocol.handleError\<close>).
  \<^verbatim>\<open>ReadResponseProtocol\<close> overrides \<^verbatim>\<open>readResponseWith\<close> and \<^verbatim>\<open>HandleErrorProtocol\<close>
  overrides \<^verbatim>\<open>handleErrorWith\<close>: both wrap the protocol they wrap, not themselves. The
  argument \<open>after\<close> is \<open>False\<close> when it is left out.
\<close>

definition prepareRequestWith :: "'a protocol \<Rightarrow> ('a \<Rightarrow> 'a + 'a) \<Rightarrow> bool \<Rightarrow> 'a protocol" where
  "prepareRequestWith this prepare after =
     PrepareRequestProtocol this prepare after (handleError this)"

definition writeRequestWith :: "'a protocol \<Rightarrow> ('a \<Rightarrow> 'a \<Rightarrow> 'a + 'a) \<Rightarrow> 'a protocol" where
  "writeRequestWith this write = WriteRequestProtocol this write (handleError this)"

definition updateRequestWith ::
  "'a http_lib \<Rightarrow> 'a protocol \<Rightarrow> ('a \<Rightarrow> 'a \<Rightarrow> 'a + 'a) \<Rightarrow> bool \<Rightarrow> 'a protocol"
where
  "updateRequestWith lib this updateRequest after =
     WriteRequestProtocol this
       (\<lambda>request args.
          if \<not> after then and_then (updateRequest request args) (writeRequest lib this request)
          else and_then (writeRequest lib this request args) (updateRequest request))
       (handleError this)"

fun readResponseWith :: "'a protocol \<Rightarrow> ('a \<Rightarrow> 'a + 'a) \<Rightarrow> 'a protocol" where
  "readResponseWith (ReadResponseProtocol p read handler) readResponse' =
     ReadResponseProtocol p readResponse' (handleError p)"
| "readResponseWith this readResponse' = ReadResponseProtocol this readResponse' (handleError this)"

fun handleErrorWith :: "'a protocol \<Rightarrow> ('a \<Rightarrow> 'a + 'a) \<Rightarrow> 'a protocol" where
  "handleErrorWith (HandleErrorProtocol p handler) errorHandler = HandleErrorProtocol p errorHandler"
| "handleErrorWith this errorHandler = HandleErrorProtocol this errorHandler"

text \<open>
  \<^verbatim>\<open>RikeTargetImpl.operation(name, protocol)\<close> builds the operation with its name and the
  protocol it will use. \<open>target_protocol\<close> is the target's \<^verbatim>\<open>protocol\<close>; \<open>protocol\<close> is \<open>None\<close>
  when the argument is left out. The operation's options and its reference to the
  target are left out of the record.
\<close>

record 'a RikeOperationImpl =
  op_name :: string
  op_protocol :: "'a protocol"

definition RikeTargetImpl_operation ::
  "'a protocol \<Rightarrow> string \<Rightarrow> 'a protocol option \<Rightarrow> 'a RikeOperationImpl"
where
  "RikeTargetImpl_operation target_protocol name protocol =
     \<lparr>op_name = name,
      op_protocol =
        (case protocol of
           None \<Rightarrow> target_protocol
         | Some p \<Rightarrow>
             (case target_protocol of
                HttpProtocol \<Rightarrow> p
              | other \<Rightarrow>
                  prepareRequestWith p (\<lambda>options. prepareRequest target_protocol options) False))\<rparr>"

section \<open>Relative URLs (module ng2-rike/options)\<close>

text \<open>
  \<^verbatim>\<open>relativeUrl\<close> tests the URL against the regular expression \<^verbatim>\<open>/^(\w*:)?\/\//\<close>. Regular
  expressions are a datatype with the constructs this one uses (a character, the class
  \<^verbatim>\<open>\w\<close>, sequence, \<^verbatim>\<open>?\<close> and \<^verbatim>\<open>*\<close>) and the three that taking derivatives needs (the
  expression matching nothing, the one matching the empty string, and alternative).
\<close>

datatype regex =
    Nothing
  | Empty
  | Chr char
  | Word
  | Alt regex regex
  | Seq regex regex
  | Opt regex
  | Star regex

text \<open>The class \<^verbatim>\<open>\w\<close> is \<^verbatim>\<open>[A-Za-z0-9_]\<close>.\<close>

definition is_word :: "char \<Rightarrow> bool" where
  "is_word c \<longleftrightarrow>
     c \<in> set ''ABCDEFGHIJKLMNOPQRSTUVWXYZabcdefghijklmnopqrstuvwxyz0123456789_''"

primrec nullable :: "regex \<Rightarrow> bool" where
  "nullable Nothing = False"
| "nullable Empty = True"
| "nullable (Chr c) = False"
| "nullable Word = False"
| "nullable (Alt r s) = (nullable r \<or> nullable s)"
| "nullable (Seq r s) = (nullable r \<and> nullable s)"
| "nullable (Opt r) = True"
| "nullable (Star r) = True"

text \<open>\<open>deriv c r\<close> matches what \<open>r\<close> can still match after the character \<open>c\<close>.\<close>

primrec deriv :: "char \<Rightarrow> regex \<Rightarrow> regex" where
  "deriv c Nothing = Nothing"
| "deriv c Empty = Nothing"
| "deriv c (Chr d) = (if c = d then Empty else Nothing)"
| "deriv c Word = (if is_word c then Empty else Nothing)"
| "deriv c (Alt r s) = Alt (deriv c r) (deriv c s)"
| "deriv c (Seq r s) =
     (if nullable r then Alt (Seq (deriv c r) s) (deriv c s) else Seq (deriv c r) s)"
| "deriv c (Opt r) = deriv c r"
| "deriv c (Star r) = Seq (deriv c r) (Star r)"

text \<open>
  \<open>matches_at_start r s\<close>: the expression \<^verbatim>\<open>/^r/\<close> matches the string \<open>s\<close>, that is, \<open>r\<close>
  matches a prefix of \<open>s\<close>. This is the truth value of \<^verbatim>\<open>s.match(/^r/)\<close>.
\<close>

primrec matches_at_start :: "regex \<Rightarrow> string \<Rightarrow> bool" where
  "matches_at_start r [] = nullable r"
| "matches_at_start r (c # cs) = (nullable r \<or> matches_at_start (deriv c r) cs)"

text \<open>The expression \<^verbatim>\<open>(\w*:)?\/\/\<close>.\<close>

definition full_url :: regex where
  "full_url = Seq (Opt (Seq (Star Word) (Chr CHR '':''))) (Seq (Chr CHR ''/'') (Chr CHR ''/''))"

text \<open>
  \<^verbatim>\<open>relativeUrl(baseUrl, url)\<close>. The base URL is \<open>None\<close> when it is \<^verbatim>\<open>undefined\<close>;
  \<^verbatim>\<open>!baseUrl\<close> holds for \<^verbatim>\<open>undefined\<close> and for the empty string. \<^verbatim>\<open>url[0] === "/"\<close> is false
  for the empty URL.
\<close>

definition relativeUrl :: "string option \<Rightarrow> string \<Rightarrow> string" where
  "relativeUrl baseUrl url =
     (case baseUrl of
        None \<Rightarrow> url
      | Some base \<Rightarrow>
          if base = [] then url
          else if take 1 url = ''/'' then url
          else if matches_at_start full_url url then url
          else base @ ''/'' @ url)"

text \<open>
  The language of a regular expression, to say what \<open>matches_at_start\<close> computes.
\<close>

definition conc :: "string set \<Rightarrow> string set \<Rightarrow> string set" where
  "conc A B = {u @ v | u v. u \<in> A \<and> v \<in> B}"

inductive_set star :: "string set \<Rightarrow> string set" for A :: "string set" where
  star_empty: "[] \<in> star A"
| star_step: "u \<in> A \<Longrightarrow> v \<in> star A \<Longrightarrow> u @ v \<in> star A"

primrec lang :: "regex \<Rightarrow> string set" where
  "lang Nothing = {}"
| "lang Empty = {[]}"
| "lang (Chr c) = {[c]}"
| "lang Word = {[c] | c. is_word c}"
| "lang (Alt r s) = lang r \<union> lang s"
| "lang (Seq r s) = conc (lang r) (lang s)"
| "lang (Opt r) = insert [] (lang r)"
| "lang (Star r) = star (lang r)"

section \<open>Error responses (module ng2-rike/error)\<close>

subsection \<open>JavaScript values\<close>

text \<open>
  The values the error functions look into: \<^verbatim>\<open>undefined\<close>, \<^verbatim>\<open>null\<close>, booleans, numbers,
  strings, arrays and plain objects. Strings are lists of ASCII characters. The code
  does one thing with a number, it turns it into a string; how a number is printed is
  the language's (\<^verbatim>\<open>1.5\<close>, \<^verbatim>\<open>-12\<close>, \<^verbatim>\<open>1e+21\<close>, \<^verbatim>\<open>NaN\<close>), so a number is given here by
  the string \<^verbatim>\<open>toString()\<close> prints for it, which is never empty. An object is the list of
  its own enumerable properties in the order \<^verbatim>\<open>for (... in ...)\<close> visits them; its
  prototype is \<^verbatim>\<open>Object.prototype\<close>. Functions are not among the values, so calling a
  property of an object as a method throws a \<^verbatim>\<open>TypeError\<close>.
\<close>

type_synonym number = string

datatype jsval =
    JUndefined
  | JNull
  | JBool bool
  | JNum number
  | JStr string
  | JArr "jsval list"
  | JObj "(string \<times> jsval) list"

datatype exn = TypeError

text \<open>\<^verbatim>\<open>v == null\<close>, \<^verbatim>\<open>!!v\<close>, \<^verbatim>\<open>typeof v === "string"\<close> and \<^verbatim>\<open>typeof v !== "object"\<close> for a \<open>v\<close> that is not null or undefined.\<close>

fun is_nullish :: "jsval \<Rightarrow> bool" where
  "is_nullish JUndefined = True"
| "is_nullish JNull = True"
| "is_nullish v = False"

fun truthy :: "jsval \<Rightarrow> bool" where
  "truthy JUndefined = False"
| "truthy JNull = False"
| "truthy (JBool b) = b"
| "truthy (JNum n) = (n \<noteq> ''0'' \<and> n \<noteq> ''NaN'')"
| "truthy (JStr s) = (s \<noteq> [])"
| "truthy (JArr xs) = True"
| "truthy (JObj ps) = True"

fun is_string :: "jsval \<Rightarrow> bool" where
  "is_string (JStr s) = True"
| "is_string v = False"

fun is_scalar :: "jsval \<Rightarrow> bool" where
  "is_scalar (JBool b) = True"
| "is_scalar (JNum n) = True"
| "is_scalar (JStr s) = True"
| "is_scalar v = False"

text \<open>
  Reading a property that \<^verbatim>\<open>Object.prototype\<close>, \<^verbatim>\<open>Array.prototype\<close> and the wrappers of the
  primitives do not have (the code reads \<^verbatim>\<open>message\<close>, \<^verbatim>\<open>code\<close>, \<^verbatim>\<open>response\<close> and the
  fields of an object), from a value that is not null or undefined.
\<close>

fun get_prop :: "jsval \<Rightarrow> string \<Rightarrow> jsval" where
  "get_prop (JObj ps) name = (case map_of ps name of None \<Rightarrow> JUndefined | Some v \<Rightarrow> v)"
| "get_prop v name = JUndefined"

fun has_own :: "jsval \<Rightarrow> string \<Rightarrow> bool" where
  "has_own (JObj ps) name = (map_of ps name \<noteq> None)"
| "has_own v name = False"

text \<open>
  \<^verbatim>\<open>result[field] = value\<close> on a plain object: the property is replaced or added at the
  end. The name \<^verbatim>\<open>__proto__\<close> is the accessor of \<^verbatim>\<open>Object.prototype\<close>: assigning an array
  to it changes the prototype and adds no property.
\<close>

fun assign :: "(string \<times> jsval) list \<Rightarrow> string \<Rightarrow> jsval \<Rightarrow> (string \<times> jsval) list" where
  "assign [] field v = [(field, v)]"
| "assign ((k, w) # ps) field v =
     (if k = field then (k, v) # ps else (k, w) # assign ps field v)"

definition set_prop :: "(string \<times> jsval) list \<Rightarrow> string \<Rightarrow> jsval \<Rightarrow> (string \<times> jsval) list" where
  "set_prop result field v = (if field = ''__proto__'' then result else assign result field v)"

text \<open>
  \<^verbatim>\<open>toLowerCase\<close>, for strings of ASCII characters: the letters A to Z change, every
  other character stays.
\<close>

definition lower_char :: "char \<Rightarrow> char" where
  "lower_char c =
     (case map_of (zip ''ABCDEFGHIJKLMNOPQRSTUVWXYZ'' ''abcdefghijklmnopqrstuvwxyz'') c of
        None \<Rightarrow> c
      | Some l \<Rightarrow> l)"

definition toLowerCase :: "string \<Rightarrow> string" where
  "toLowerCase s = map lower_char s"

fun join :: "string \<Rightarrow> string list \<Rightarrow> string" where
  "join sep [] = []"
| "join sep [s] = s"
| "join sep (s # ss) = s @ sep @ join sep ss"

text \<open>
  The method call \<^verbatim>\<open>v.toString()\<close>. On \<^verbatim>\<open>undefined\<close> and \<^verbatim>\<open>null\<close> it throws. An array joins
  the strings of its elements with commas, the empty string standing for an element that
  is \<^verbatim>\<open>undefined\<close> or \<^verbatim>\<open>null\<close>. A plain object gives \<^verbatim>\<open>[object Object]\<close>, unless it has an
  own property \<^verbatim>\<open>toString\<close>, which is not a function.
\<close>

fun to_string :: "jsval \<Rightarrow> exn + string"
  and element_strings :: "jsval list \<Rightarrow> exn + string list"
where
  "to_string JUndefined = Inl TypeError"
| "to_string JNull = Inl TypeError"
| "to_string (JBool b) = Inr (if b then ''true'' else ''false'')"
| "to_string (JNum n) = Inr n"
| "to_string (JStr s) = Inr s"
| "to_string (JArr xs) = and_then (element_strings xs) (\<lambda>parts. Inr (join '','' parts))"
| "to_string (JObj ps) =
     (if map_of ps ''toString'' \<noteq> None then Inl TypeError else Inr ''[object Object]'')"
| "element_strings [] = Inr []"
| "element_strings (x # xs) =
     and_then (if is_nullish x then Inr [] else to_string x)
       (\<lambda>s. and_then (element_strings xs) (\<lambda>ss. Inr (s # ss)))"

text \<open>\<^verbatim>\<open>xs.map(f)\<close> for an \<open>f\<close> that can throw: the first exception ends the loop.\<close>

fun map_throwing :: "('a \<Rightarrow> exn + 'b) \<Rightarrow> 'a list \<Rightarrow> exn + 'b list" where
  "map_throwing f [] = Inr []"
| "map_throwing f (x # xs) =
     and_then (f x) (\<lambda>y. and_then (map_throwing f xs) (\<lambda>ys. Inr (y # ys)))"

subsection \<open>Field errors\<close>

definition toFieldError :: "jsval \<Rightarrow> exn + jsval" where
  "toFieldError data =
     (if is_nullish data then Inr (JObj [(''message'', JStr [])])
      else if is_string (get_prop data ''message'') \<and>
          (is_nullish (get_prop data ''code'') \<or> get_prop data ''code'' = JStr ''string'')
        then Inr data
      else if \<not> is_nullish (get_prop data ''message'') then
        and_then
          (if \<not> is_nullish (get_prop data ''code'')
           then and_then (to_string (get_prop data ''code'')) (\<lambda>s. Inr (JStr s))
           else Inr JUndefined)
          (\<lambda>code.
             and_then (to_string (get_prop data ''message''))
               (\<lambda>message. Inr (JObj [(''code'', code), (''message'', JStr message)])))
      else and_then (to_string data) (\<lambda>message. Inr (JObj [(''message'', JStr message)])))"

definition notEmptyError :: "jsval \<Rightarrow> bool" where
  "notEmptyError item \<longleftrightarrow>
     truthy item \<and> (truthy (get_prop item ''message'') \<or> truthy (get_prop item ''code''))"

definition toFieldErrorArray :: "jsval \<Rightarrow> exn + jsval list" where
  "toFieldErrorArray data =
     (if is_nullish data then Inr []
      else case data of
        JArr xs \<Rightarrow> and_then (map_throwing toFieldError xs) (\<lambda>items. Inr (filter notEmptyError items))
      | other \<Rightarrow> and_then (toFieldError data) (\<lambda>item. Inr (filter notEmptyError [item])))"

text \<open>
  The loop of \<^verbatim>\<open>toFieldErrors\<close> over the fields of the object \<open>errors\<close>, with the variables
  \<^verbatim>\<open>result\<close> and \<^verbatim>\<open>hasErrors\<close>. \<^verbatim>\<open>errors.hasOwnProperty(field)\<close> throws when the object has
  an own property of that name, and is true otherwise.
\<close>

fun field_loop ::
  "jsval \<Rightarrow> string list \<Rightarrow> (string \<times> jsval) list \<Rightarrow> bool \<Rightarrow> exn + (string \<times> jsval) list \<times> bool"
where
  "field_loop errors [] result hasErrors = Inr (result, hasErrors)"
| "field_loop errors (field # others) result hasErrors =
     (if has_own errors ''hasOwnProperty'' then Inl TypeError
      else
        and_then (toFieldErrorArray (get_prop errors field))
          (\<lambda>errorArray.
             if errorArray \<noteq> []
             then field_loop errors others (set_prop result field (JArr errorArray)) True
             else field_loop errors others result hasErrors))"

text \<open>\<^verbatim>\<open>toFieldErrors\<close> returns \<^verbatim>\<open>undefined\<close> or an object of arrays of errors.\<close>

definition toFieldErrors :: "jsval \<Rightarrow> exn + jsval" where
  "toFieldErrors data =
     (if is_nullish data then Inr JUndefined
      else case data of
        JArr xs \<Rightarrow>
          and_then (map_throwing toFieldError xs)
            (\<lambda>items.
               let fieldErrors = filter notEmptyError items in
               Inr (if fieldErrors \<noteq> [] then JObj [(''*'', JArr fieldErrors)] else JUndefined))
      | JObj ps \<Rightarrow>
          and_then (field_loop data (map fst ps) [] False)
            (\<lambda>(result, hasErrors). Inr (if hasErrors then JObj result else JUndefined))
      | other \<Rightarrow>
          and_then (to_string data)
            (\<lambda>message.
               let fieldErrors = filter notEmptyError [JObj [(''message'', JStr message)]] in
               Inr (if fieldErrors \<noteq> [] then JObj [(''*'', JArr fieldErrors)] else JUndefined)))"

subsection \<open>Responses and error responses\<close>

text \<open>
  An instance of the HTTP library's \<^verbatim>\<open>Response\<close>, by what it was built from: its
  \<^verbatim>\<open>status\<close> (a number, given like every number by the string it prints as), its
  \<^verbatim>\<open>statusText\<close> (\<open>None\<close> when it is \<^verbatim>\<open>null\<close> or \<^verbatim>\<open>undefined\<close>), its \<^verbatim>\<open>headers\<close> (\<open>None\<close> when it
  has none, otherwise the \<^verbatim>\<open>get\<close> method of the headers object, which returns \<open>None\<close> for
  \<^verbatim>\<open>null\<close>) and its body text. What \<^verbatim>\<open>response.json()\<close> makes of the body
  is the library's: the functions below take it as the parameter \<open>parse\<close>, which returns
  \<open>None\<close> when \<^verbatim>\<open>json()\<close> throws.
\<close>

datatype http_response =
  Response (status: number) (statusText: "string option")
    (headers: "(string \<Rightarrow> string option) option") (body: "string option")

text \<open>
  What \<^verbatim>\<open>toErrorResponse\<close> can be given: a value as above (\<open>Plain\<close>), an instance of
  \<^verbatim>\<open>Response\<close>, an instance of \<^verbatim>\<open>ErrorResponse\<close> with its fields \<^verbatim>\<open>response\<close> and \<^verbatim>\<open>errors\<close>,
  or an object of another class whose \<^verbatim>\<open>response\<close> is an instance of \<^verbatim>\<open>Response\<close> and
  whose \<^verbatim>\<open>errors\<close> is an array (the interface \<^verbatim>\<open>ErrorResponseOpts\<close>). Objects that hold
  a \<^verbatim>\<open>Response\<close> elsewhere are outside this model.
\<close>

datatype error_value =
    Plain jsval
  | Resp http_response
  | ErrorResponse http_response jsval
  | ErrorResponseOpts http_response "jsval list"

text \<open>
  \<^verbatim>\<open>syntheticResponse(error)\<close> builds a response from the options \<^verbatim>\<open>type\<close>, \<^verbatim>\<open>status\<close> and
  \<^verbatim>\<open>statusText\<close> alone: it has no headers and no body.
\<close>

definition syntheticResponse :: "jsval \<Rightarrow> exn + http_response" where
  "syntheticResponse error =
     and_then (if \<not> is_nullish error then to_string error else Inr [])
       (\<lambda>text. Inr (Response ''500'' (Some (if text \<noteq> [] then text else ''Unknown error'')) None None))"

definition defaultErrorResponse :: "http_response \<Rightarrow> error_value" where
  "defaultErrorResponse response =
     (let message = ''ERROR '' @ status response;
          message' =
            (case statusText response of
               None \<Rightarrow> message
             | Some text \<Rightarrow>
                 if text \<noteq> [] \<and> toLowerCase text \<noteq> ''ok'' then message @ '': '' @ text
                 else message)
      in ErrorResponse response
           (JObj [(''*'',
              JArr [JObj [(''code'', JStr (''HTTP'' @ status response)),
                          (''message'', JStr message')]])]))"

text \<open>
  The variable \<^verbatim>\<open>body\<close> of \<^verbatim>\<open>toErrorResponse\<close> after the attempt to parse: the result of
  \<^verbatim>\<open>response.json()\<close> when the header \<^verbatim>\<open>Content-Type\<close> is \<^verbatim>\<open>application/json\<close> and \<^verbatim>\<open>json()\<close>
  returns, and \<^verbatim>\<open>undefined\<close> otherwise. \<open>get\<close> is the \<^verbatim>\<open>get\<close> method of the headers. The
  message written to the console when \<^verbatim>\<open>json()\<close> throws is left out.
\<close>

definition json_body ::
  "(string option \<Rightarrow> jsval option) \<Rightarrow> (string \<Rightarrow> string option) \<Rightarrow> http_response \<Rightarrow> jsval"
where
  "json_body parse get response =
     (if get ''Content-Type'' = Some ''application/json''
      then (case parse (body response) of None \<Rightarrow> JUndefined | Some v \<Rightarrow> v)
      else JUndefined)"

text \<open>
  \<^verbatim>\<open>toErrorResponse(error)\<close>. Reading \<^verbatim>\<open>get\<close> from absent headers and reading \<^verbatim>\<open>response\<close>
  from \<^verbatim>\<open>null\<close> or \<^verbatim>\<open>undefined\<close> throw a \<^verbatim>\<open>TypeError\<close>.
\<close>

definition toErrorResponse ::
  "(string option \<Rightarrow> jsval option) \<Rightarrow> error_value \<Rightarrow> exn + error_value"
where
  "toErrorResponse parse error =
     (case error of
        ErrorResponse response errors \<Rightarrow> Inr error
      | Resp response \<Rightarrow>
          (case headers response of
             None \<Rightarrow> Inl TypeError
           | Some get \<Rightarrow>
               and_then (toFieldErrors (json_body parse get response))
                    (\<lambda>fieldErrors.
                       if truthy fieldErrors then Inr (ErrorResponse response fieldErrors)
                       else Inr (defaultErrorResponse response)))
      | ErrorResponseOpts response errors \<Rightarrow> Inr (ErrorResponse response (JArr errors))
      | Plain v \<Rightarrow>
          if is_nullish v then Inl TypeError
          else
            and_then (toFieldErrors v)
              (\<lambda>fieldErrors.
                 if truthy fieldErrors
                 then and_then (syntheticResponse JNull)
                        (\<lambda>response. Inr (ErrorResponse response fieldErrors))
                 else and_then (syntheticResponse v)
                        (\<lambda>response. Inr (defaultErrorResponse response))))"

text \<open>
  The array \<^verbatim>\<open>toFieldErrorArray\<close> makes of a scalar that is not the empty string: one
  error, its message the string of the scalar, without a code.
\<close>

definition field_entry :: "jsval \<Rightarrow> jsval" where
  "field_entry v = JArr [JObj [(''message'', JStr (projr (to_string v)))]]"

section \<open>Example values\<close>

text \<open>
  An observer whose callbacks all return, and one whose \<^verbatim>\<open>error\<close> callback throws.
  Operations are named by strings here and opaque values are numbers.
\<close>

definition quiet_observer :: "(string, nat) observer" where
  "quiet_observer = \<lparr>obs_next = (\<lambda>v. None), obs_error = (\<lambda>e. None), obs_complete = None\<rparr>"

text \<open>
  A new target. Its emitter throws on a call after its end, as \<^verbatim>\<open>rxjs\<close> 5.0.0-beta.6
  does; the opaque value 0 stands for the \<^verbatim>\<open>ObjectUnsubscribedError\<close> thrown.
\<close>

definition fresh_target :: "(string, nat) target" where
  "fresh_target = new_target (Some (Opaque 0))"

text \<open>
  The target after a verb method of operation A was called, the transport returning the
  response stream 1: the wrapped observable is not subscribed yet.
\<close>

definition target_A_started :: "(string, nat) target" where
  "target_A_started = snd (verb ''A'' (Inr 1) fresh_target)"

text \<open>The same target after the caller has subscribed to the wrapped observable.\<close>

definition target_A_subscribed :: "(string, nat) target" where
  "target_A_subscribed = subscribe (''A'', 1) quiet_observer 5 target_A_started"

text \<open>The same target with an emitter whose methods return after its end.\<close>

definition target_A_subscribed_silent :: "(string, nat) target" where
  "target_A_subscribed_silent = target_A_subscribed\<lparr>t_after_end := None\<rparr>"

text \<open>
  An observer whose \<^verbatim>\<open>error\<close> callback throws, attached to operation A in place of the
  quiet one.
\<close>

definition throwing_observer :: "(string, nat) observer" where
  "throwing_observer =
     \<lparr>obs_next = (\<lambda>v. None), obs_error = (\<lambda>e. Some (Str ''boom'')), obs_complete = None\<rparr>"

definition target_A_throwing :: "(string, nat) target" where
  "target_A_throwing = subscribe (''A'', 1) throwing_observer 5 target_A_started"

text \<open>
  The target after the transport has completed the response stream of A, and after a
  verb method of operation B was then called, the wrapped observable of B not
  subscribed.
\<close>

definition target_A_completed :: "(string, nat) target" where
  "target_A_completed = snd (on_complete ''A'' quiet_observer target_A_subscribed)"

definition target_B_started :: "(string, nat) target" where
  "target_B_started = snd (verb ''B'' (Inr 2) target_A_completed)"

text \<open>
  Protocols over numbers: a target protocol that adds one to the options and handles
  errors by adding a hundred, and an operation protocol that doubles the options.
\<close>

definition add_one_target :: "nat protocol" where
  "add_one_target =
     handleErrorWith (prepareRequestWith JsonProtocol (\<lambda>options. Inr (options + 1)) False)
       (\<lambda>error. Inr (error + 100))"

definition double_operation :: "nat protocol" where
  "double_operation = prepareRequestWith HttpProtocol (\<lambda>options. Inr (options * 2)) False"

definition no_lib :: "nat http_lib" where
  "no_lib =
     \<lparr>merge_body = (\<lambda>options body. Inl 0), json_stringify = (\<lambda>request. Inl 0),
      set_json_content_type = (\<lambda>opts. Inl 0), response_json = (\<lambda>response. Inl 0)\<rparr>"


definition no_json :: "string option \<Rightarrow> jsval option" where
  "no_json text = None"


section \<open>Properties of the target\<close>

subsection \<open>The emitter\<close>

lemma emitter_ended_update:
  "emitter_ended (t\<lparr>t_response := response\<rparr>) = emitter_ended t"
  "emitter_ended (t\<lparr>t_operation := current\<rparr>) = emitter_ended t"
  "emitter_ended (t\<lparr>t_observer := observer\<rparr>) = emitter_ended t"
  "emitter_ended (t\<lparr>t_subscr := subscr\<rparr>) = emitter_ended t"
  "emitter_ended (t\<lparr>t_unsubscribed := done\<rparr>) = emitter_ended t"
  by (simp_all add: emitter_ended_def)

lemma emitter_ended_iff: "emitter_ended t \<longleftrightarrow> (\<exists>c \<in> set (t_rikeEvents t). is_error_call c)"
  by (simp add: emitter_ended_def list_ex_iff)

text \<open>
  Before the first call of \<^verbatim>\<open>error\<close> every call is delivered; that call is the last one
  delivered.
\<close>

lemma delivered_no_error: "\<forall>c \<in> set calls. \<not> is_error_call c \<Longrightarrow> delivered calls = calls"
  by (induction calls rule: delivered.induct) simp_all

lemma delivered_first_error:
  "\<forall>c \<in> set calls. \<not> is_error_call c \<Longrightarrow>
   delivered (calls @ Error ev # later) = calls @ [Error ev]"
  by (induction calls rule: delivered.induct) simp_all

subsection \<open>What \<^verbatim>\<open>_cancel\<close> does in each state\<close>

lemma cancel_cause_idle: "t_operation t = None \<Longrightarrow> cancel_cause cause t = (Inr False, t)"
  by (simp add: cancel_cause_def)

lemma cancel_cause_no_observer:
  "t_operation t = Some current \<Longrightarrow> t_observer t = None \<Longrightarrow>
   cancel_cause cause t =
     (Inr True,
      (case t_subscr t of
         None \<Rightarrow> t\<lparr>t_response := None\<rparr>
       | Some subscr \<Rightarrow>
           t\<lparr>t_response := None, t_unsubscribed := t_unsubscribed t @ [subscr],
             t_subscr := None\<rparr>))"
  by (simp add: cancel_cause_def Let_def split: option.splits)

lemma cancel_cause_observed:
  assumes "t_operation t = Some current" and "t_observer t = Some obs"
    and "obs_error obs (EventRef (new_RikeCancelEvent (ev_operation current) cause)) = None"
    and "obs_complete obs = None"
    and "\<not> emitter_ended t"
  shows "fst (cancel_cause cause t) = Inr True"
    and "t_rikeEvents (snd (cancel_cause cause t)) =
           t_rikeEvents t @ [Error (new_RikeCancelEvent (ev_operation current) cause)]"
    and "t_operation (snd (cancel_cause cause t)) = None"
    and "t_observer (snd (cancel_cause cause t)) = None"
    and "t_after_end (snd (cancel_cause cause t)) = t_after_end t"
  using assms
  by (simp_all add: cancel_cause_def Let_def rikeEvents_error_def emitter_ended_update
      split: option.splits)

text \<open>
  Every call \<^verbatim>\<open>_cancel\<close> makes on the emitter: none without an operation in flight or
  without an observer. Otherwise, when the observer took the cancel event, one call of
  \<^verbatim>\<open>error\<close> with the cancel event, followed by one with an error event when the first
  one threw; and when the observer threw, one call of \<^verbatim>\<open>error\<close> with an error event.
\<close>

lemma cancel_cause_rikeEvents:
  "t_rikeEvents (snd (cancel_cause cause t)) =
     t_rikeEvents t @
     (case (t_operation t, t_observer t) of
        (Some current, Some obs) \<Rightarrow>
          (let cancel = new_RikeCancelEvent (ev_operation current) cause in
           case obs_error obs (EventRef cancel) of
             None \<Rightarrow>
               (case (if emitter_ended t then t_after_end t else None) of
                  None \<Rightarrow> [Error cancel]
                | Some e \<Rightarrow> [Error cancel, Error (RikeErrorEvent (ev_operation current) e)])
           | Some e \<Rightarrow> [Error (RikeErrorEvent (ev_operation current) e)])
      | other \<Rightarrow> [])"
  by (simp add: cancel_cause_def Let_def rikeEvents_error_def emitter_ended_update
      split: option.splits)

lemma target_A_started_fields:
  "t_operation target_A_started = Some (RikeOperationEvent ''A'')"
  "t_observer target_A_started = None"
  "t_response target_A_started = Some 1"
  "t_subscr target_A_started = None"
  "t_rikeEvents target_A_started = [Emit (RikeOperationEvent ''A'')]"
  "t_after_end target_A_started = Some (Opaque 0)"
  by (simp_all add: target_A_started_def fresh_target_def verb_def startOperation_def
      cancel_cause_def new_target_def wrapResponse_def rikeEvents_emit_def emitter_ended_def
      Let_def)

lemma target_A_subscribed_fields:
  "t_operation target_A_subscribed = Some (RikeOperationEvent ''A'')"
  "t_observer target_A_subscribed = Some quiet_observer"
  "t_response target_A_subscribed = Some 1"
  "t_subscr target_A_subscribed = Some 5"
  "t_rikeEvents target_A_subscribed = [Emit (RikeOperationEvent ''A'')]"
  "t_after_end target_A_subscribed = Some (Opaque 0)"
  "\<not> emitter_ended target_A_subscribed"
  by (simp_all add: target_A_subscribed_def subscribe_def target_A_started_fields
      emitter_ended_def)

subsection \<open>Cancelling without an observer\<close>

text \<open>
  C10, as the code has it. When \<^verbatim>\<open>cancel()\<close> is called on a target that holds an
  operation record and has no observer attached, it returns true, makes no call on the
  target's emitter and leaves the operation record in place: \<^verbatim>\<open>currentOperation\<close> is
  still defined afterwards. That no observer is attached is a condition of its own: it
  does not follow from the wrapped observable of the operation not being subscribed
  (the example that follows the theorem).
\<close>

theorem cancel_without_observer:
  assumes "t_operation t = Some current" and "t_observer t = None"
  shows "fst (cancel t) = Inr True \<and>
         t_rikeEvents (snd (cancel t)) = t_rikeEvents t \<and>
         t_operation (snd (cancel t)) = Some current \<and>
         currentOperation (snd (cancel t)) = Some (ev_operation current)"
  using assms
  by (simp add: cancel_def cancel_cause_no_observer currentOperation_def split: option.splits)

theorem cancel_without_observer_witness:
  "t_operation target_A_started = Some (RikeOperationEvent ''A'') \<and>
   t_observer target_A_started = None \<and>
   fst (cancel target_A_started) = Inr True \<and>
   t_rikeEvents (snd (cancel target_A_started)) = [Emit (RikeOperationEvent ''A'')] \<and>
   currentOperation (snd (cancel target_A_started)) = Some ''A''"
  using cancel_without_observer [of target_A_started "RikeOperationEvent ''A''"]
  by (simp add: target_A_started_fields)

text \<open>
  \<^verbatim>\<open>cleanup\<close> clears the operation, the response and the subscription, not the observer:
  only \<^verbatim>\<open>_cancel\<close> clears it. After operation A has completed, its observer is still
  attached.
\<close>

lemma target_A_completed_fields:
  "t_operation target_A_completed = None"
  "t_observer target_A_completed = Some quiet_observer"
  "t_response target_A_completed = None"
  "t_subscr target_A_completed = None"
  "t_rikeEvents target_A_completed = [Emit (RikeOperationEvent ''A'')]"
  "t_after_end target_A_completed = Some (Opaque 0)"
  by (simp_all add: target_A_completed_def on_complete_def cleanup_def Let_def
      target_A_subscribed_fields quiet_observer_def split: option.splits)

lemma target_B_started_fields:
  "t_operation target_B_started = Some (RikeOperationEvent ''B'')"
  "t_observer target_B_started = Some quiet_observer"
  "t_response target_B_started = Some 2"
  "t_subscr target_B_started = None"
  "t_rikeEvents target_B_started = [Emit (RikeOperationEvent ''A''), Emit (RikeOperationEvent ''B'')]"
  "t_after_end target_B_started = Some (Opaque 0)"
  by (simp_all add: target_B_started_def verb_def startOperation_def cancel_cause_idle
      target_A_completed_fields wrapResponse_def rikeEvents_emit_def emitter_ended_def Let_def)

lemma target_B_started_cancel:
  "fst (cancel target_B_started) = Inr True"
  "t_rikeEvents (snd (cancel target_B_started)) =
     t_rikeEvents target_B_started @ [Error (RikeCancelEvent ''B'' (Str ''cancel'') None)]"
  "t_operation (snd (cancel target_B_started)) = None"
  by (simp_all add: cancel_def cancel_cause_def Let_def target_B_started_fields
      quiet_observer_def rikeEvents_error_def emitter_ended_def new_RikeCancelEvent_def
      split: option.splits)

text \<open>
  The claim as stated fails. On \<open>target_B_started\<close> operation A was subscribed and has
  completed, then a verb method of operation B was called and the wrapped observable of
  B was never subscribed: the target holds the record of B, no subscription, and the
  observer of A. \<^verbatim>\<open>cancel()\<close> returns true, passes a cancel event of B to the emitter and
  clears the record.
\<close>

theorem cancel_stale_observer_counterexample:
  "currentOperation target_B_started = Some ''B'' \<and>
   t_response target_B_started = Some 2 \<and>
   t_subscr target_B_started = None \<and>
   fst (cancel target_B_started) = Inr True \<and>
   calls_since target_B_started (snd (cancel target_B_started)) =
     [Error (RikeCancelEvent ''B'' (Str ''cancel'') None)] \<and>
   currentOperation (snd (cancel target_B_started)) = None"
  by (simp add: target_B_started_cancel target_B_started_fields currentOperation_def
      calls_since_def)

subsection \<open>The calls made on the emitter\<close>

lemma calls_since_append:
  "t_rikeEvents t' = t_rikeEvents t @ calls \<Longrightarrow> calls_since t t' = calls"
  by (simp add: calls_since_def)

lemma new_RikeCancelEvent_fields:
  "ev_cancel (new_RikeCancelEvent operation cause)"
  "ev_complete (new_RikeCancelEvent operation cause)"
  "ev_operation (new_RikeCancelEvent operation cause) = operation"
  "ev_cancelledBy (new_RikeCancelEvent operation cause) =
     (case cause of None \<Rightarrow> Undefined | Some by \<Rightarrow> EventRef by)"
  "ev_error (new_RikeCancelEvent operation cause) =
     (case cause of None \<Rightarrow> Undefined | Some by \<Rightarrow> EventRef by)"
  by (simp_all add: new_RikeCancelEvent_def split: option.splits)

lemma startOperation_rikeEvents:
  "t_rikeEvents (snd (startOperation operation t)) =
     t_rikeEvents (snd (cancel_cause (Some (RikeOperationEvent operation)) t)) @
     (case fst (cancel_cause (Some (RikeOperationEvent operation)) t) of
        Inl e \<Rightarrow> []
      | Inr cancelled \<Rightarrow> [Emit (RikeOperationEvent operation)])"
  by (simp add: startOperation_def Let_def rikeEvents_emit_def
      split: prod.splits sum.splits option.splits)

lemma verb_rikeEvents:
  "t_rikeEvents (snd (verb operation request t)) =
     t_rikeEvents (snd (startOperation operation t)) @
     (case fst (startOperation operation t) of
        Inl e \<Rightarrow> [Error (RikeErrorEvent operation e)]
      | Inr started \<Rightarrow>
          (case request of Inl e \<Rightarrow> [Error (RikeErrorEvent operation e)] | Inr response \<Rightarrow> []))"
  by (cases "startOperation operation t")
    (auto simp: verb_def report_def rikeEvents_error_def wrapResponse_def
      split: sum.splits option.splits)

text \<open>A cancel event among the calls of a step was built by that step, with its cause.\<close>

lemma cancel_cause_calls:
  "c \<in> set (calls_since t (snd (cancel_cause cause t))) \<Longrightarrow> ev_cancel (call_event c) \<Longrightarrow>
   (\<exists>operation. call_event c = new_RikeCancelEvent operation cause)"
  by (auto simp: calls_since_def cancel_cause_rikeEvents Let_def split: option.splits if_splits)

lemma verb_calls:
  "c \<in> set (calls_since t (snd (verb operation request t))) \<Longrightarrow> ev_cancel (call_event c) \<Longrightarrow>
   (\<exists>cancelled. call_event c = new_RikeCancelEvent cancelled (Some (RikeOperationEvent operation)))"
  by (auto simp: calls_since_def verb_rikeEvents startOperation_rikeEvents
      cancel_cause_rikeEvents Let_def split: option.splits sum.splits if_splits)

text \<open>The example targets, run.\<close>

lemma target_A_started_cancel:
  "cancel target_A_started = (Inr True, target_A_started\<lparr>t_response := None\<rparr>)"
  by (simp add: cancel_def cancel_cause_no_observer [of _ "RikeOperationEvent ''A''"]
      target_A_started_fields)

lemma target_A_started_verb_B:
  "fst (verb ''B'' (Inr 2) target_A_started) = Inr (''B'', 2)"
  "t_rikeEvents (snd (verb ''B'' (Inr 2) target_A_started)) =
     [Emit (RikeOperationEvent ''A''), Emit (RikeOperationEvent ''B'')]"
  "t_operation (snd (verb ''B'' (Inr 2) target_A_started)) = Some (RikeOperationEvent ''B'')"
  by (simp_all add: verb_def startOperation_def Let_def rikeEvents_emit_def wrapResponse_def
      emitter_ended_def target_A_started_fields
      cancel_cause_no_observer [of _ "RikeOperationEvent ''A''"])

lemma target_A_subscribed_cancel_cause:
  "fst (cancel_cause cause target_A_subscribed) = Inr True"
  "t_rikeEvents (snd (cancel_cause cause target_A_subscribed)) =
     [Emit (RikeOperationEvent ''A''), Error (new_RikeCancelEvent ''A'' cause)]"
  "t_operation (snd (cancel_cause cause target_A_subscribed)) = None"
  "t_after_end (snd (cancel_cause cause target_A_subscribed)) = Some (Opaque 0)"
  using cancel_cause_observed [of target_A_subscribed "RikeOperationEvent ''A''" quiet_observer cause]
  by (simp_all add: target_A_subscribed_fields quiet_observer_def)

lemma target_A_subscribed_verb_B_run:
  "fst (verb ''B'' (Inr 2) target_A_subscribed) = Inl (Opaque 0)"
  "t_rikeEvents (snd (verb ''B'' (Inr 2) target_A_subscribed)) =
     [Emit (RikeOperationEvent ''A''),
      Error (RikeCancelEvent ''A'' (EventRef (RikeOperationEvent ''B''))
        (Some (RikeOperationEvent ''B''))),
      Emit (RikeOperationEvent ''B''),
      Error (RikeErrorEvent ''B'' (Opaque 0))]"
  "t_operation (snd (verb ''B'' (Inr 2) target_A_subscribed)) = None"
proof -
  let ?cause = "Some (RikeOperationEvent ''B'') :: (string, nat) event option"
  obtain r t1 where c: "cancel_cause ?cause target_A_subscribed = (r, t1)"
    by (cases "cancel_cause ?cause target_A_subscribed")
  have f: "r = Inr True"
    "t_rikeEvents t1 = [Emit (RikeOperationEvent ''A''), Error (new_RikeCancelEvent ''A'' ?cause)]"
    "t_operation t1 = None" "t_after_end t1 = Some (Opaque 0)"
    using target_A_subscribed_cancel_cause [of ?cause] by (simp_all add: c)
  show "fst (verb ''B'' (Inr 2) target_A_subscribed) = Inl (Opaque 0)"
    by (simp add: verb_def startOperation_def Let_def c f rikeEvents_emit_def report_def
        rikeEvents_error_def emitter_ended_def)
  show "t_rikeEvents (snd (verb ''B'' (Inr 2) target_A_subscribed)) =
     [Emit (RikeOperationEvent ''A''),
      Error (RikeCancelEvent ''A'' (EventRef (RikeOperationEvent ''B''))
        (Some (RikeOperationEvent ''B''))),
      Emit (RikeOperationEvent ''B''),
      Error (RikeErrorEvent ''B'' (Opaque 0))]"
    by (simp add: verb_def startOperation_def Let_def c f rikeEvents_emit_def report_def
        rikeEvents_error_def emitter_ended_def new_RikeCancelEvent_def)
  show "t_operation (snd (verb ''B'' (Inr 2) target_A_subscribed)) = None"
    by (simp add: verb_def startOperation_def Let_def c f rikeEvents_emit_def report_def
        rikeEvents_error_def emitter_ended_def)
qed

lemma target_A_subscribed_verb_B:
  "calls_since target_A_subscribed (snd (verb ''B'' (Inr 2) target_A_subscribed)) =
     [Error (RikeCancelEvent ''A'' (EventRef (RikeOperationEvent ''B''))
        (Some (RikeOperationEvent ''B''))),
      Emit (RikeOperationEvent ''B''),
      Error (RikeErrorEvent ''B'' (Opaque 0))]"
  by (rule calls_since_append)
    (simp add: target_A_subscribed_verb_B_run target_A_subscribed_fields)

lemma target_A_subscribed_cancel:
  "calls_since target_A_subscribed (snd (cancel target_A_subscribed)) =
     [Error (RikeCancelEvent ''A'' (Str ''cancel'') None)]"
  by (rule calls_since_append)
    (simp add: cancel_def target_A_subscribed_cancel_cause target_A_subscribed_fields
      new_RikeCancelEvent_def)

subsection \<open>Starting an operation while another one is in flight\<close>

text \<open>
  When the operation in flight is observed, its observer's callbacks return and the
  emitter has not ended, a verb method of operation B passes the cancel event of the
  operation in flight to the emitter's \<^verbatim>\<open>error\<close> method. That call ends the emitter, so
  it is the last one delivered: whatever the emitter does with a call after its end,
  the start event of B reaches no subscriber.
\<close>

lemma verb_after_cancel_delivered:
  assumes "t_operation t = Some current" and "t_observer t = Some obs"
    and "obs_error obs
           (EventRef (new_RikeCancelEvent (ev_operation current) (Some (RikeOperationEvent B)))) =
         None"
    and "obs_complete obs = None"
    and "\<not> emitter_ended t"
  shows "delivered (t_rikeEvents (snd (verb B request t))) =
           t_rikeEvents t @
           [Error (new_RikeCancelEvent (ev_operation current) (Some (RikeOperationEvent B)))]"
proof -
  let ?cause = "Some (RikeOperationEvent B) :: ('a, 'b) event option"
  let ?cancel = "new_RikeCancelEvent (ev_operation current) ?cause"
  have evs: "t_rikeEvents (snd (cancel_cause ?cause t)) = t_rikeEvents t @ [Error ?cancel]"
    using cancel_cause_observed(2) [OF assms] .
  obtain later where "t_rikeEvents (snd (verb B request t)) = t_rikeEvents t @ Error ?cancel # later"
    by (simp add: verb_rikeEvents startOperation_rikeEvents evs)
  moreover have "\<forall>c \<in> set (t_rikeEvents t). \<not> is_error_call c"
    using assms(5) by (simp add: emitter_ended_iff)
  ultimately show ?thesis by (simp add: delivered_first_error)
qed

lemma target_A_subscribed_silent_fields:
  "t_operation target_A_subscribed_silent = Some (RikeOperationEvent ''A'')"
  "t_observer target_A_subscribed_silent = Some quiet_observer"
  "t_rikeEvents target_A_subscribed_silent = [Emit (RikeOperationEvent ''A'')]"
  "t_after_end target_A_subscribed_silent = None"
  "\<not> emitter_ended target_A_subscribed_silent"
  by (simp_all add: target_A_subscribed_silent_def target_A_subscribed_fields emitter_ended_def)

lemma target_A_subscribed_silent_verb_B:
  "fst (verb ''B'' (Inr 2) target_A_subscribed_silent) = Inr (''B'', 2)"
  "t_operation (snd (verb ''B'' (Inr 2) target_A_subscribed_silent)) =
     Some (RikeOperationEvent ''B'')"
proof -
  let ?cause = "Some (RikeOperationEvent ''B'') :: (string, nat) event option"
  obtain r t1 where c: "cancel_cause ?cause target_A_subscribed_silent = (r, t1)"
    by (cases "cancel_cause ?cause target_A_subscribed_silent")
  have f: "r = Inr True" "t_after_end t1 = None"
    using cancel_cause_observed
      [of target_A_subscribed_silent "RikeOperationEvent ''A''" quiet_observer ?cause]
    by (simp_all add: c target_A_subscribed_silent_fields quiet_observer_def)
  show "fst (verb ''B'' (Inr 2) target_A_subscribed_silent) = Inr (''B'', 2)"
    by (simp add: verb_def startOperation_def Let_def c f rikeEvents_emit_def wrapResponse_def)
  show "t_operation (snd (verb ''B'' (Inr 2) target_A_subscribed_silent)) =
     Some (RikeOperationEvent ''B'')"
    by (simp add: verb_def startOperation_def Let_def c f rikeEvents_emit_def wrapResponse_def)
qed

lemma target_A_subscribed_silent_delivered:
  "delivered (t_rikeEvents (snd (verb ''B'' (Inr 2) target_A_subscribed_silent))) =
     [Emit (RikeOperationEvent ''A''),
      Error (RikeCancelEvent ''A'' (EventRef (RikeOperationEvent ''B''))
        (Some (RikeOperationEvent ''B'')))]"
  using verb_after_cancel_delivered
    [of target_A_subscribed_silent "RikeOperationEvent ''A''" quiet_observer "''B''" "Inr 2"]
  by (simp add: target_A_subscribed_silent_fields quiet_observer_def new_RikeCancelEvent_def)

text \<open>
  C1. The claim fails on the code, where the code misses what it attempts:
  \<^verbatim>\<open>startOperation\<close> cancels the operation in flight and then emits the start event. On
  \<open>target_A_subscribed\<close> operation A is in flight and observed: a verb method of A was
  called on a new target and the wrapped observable was subscribed with an observer
  whose callbacks return. A verb method of operation B is called. \<^verbatim>\<open>_cancel\<close> passes the
  cancel event of A, whose \<^verbatim>\<open>cancelledBy\<close> is B's start event, to the emitter's \<^verbatim>\<open>error\<close>
  method, and that ends the emitter. The \<^verbatim>\<open>emit\<close> of B's start event that follows
  delivers nothing. Where it throws, the \<^verbatim>\<open>catch\<close> block of the verb method passes an
  error event of B to the ended emitter, the verb method throws and the target is left
  without an operation record. Where it returns (\<open>target_A_subscribed_silent\<close>), the verb
  method returns the wrapped response of B. Either way the events delivered to the
  subscribers of the emitter are A's start event and A's cancel event, the latter to
  their error handlers: B's start event is not emitted after it.

  On \<open>target_A_started\<close> operation A is in flight and its wrapped observable is not
  subscribed: the verb method of B emits B's start event and no cancel event of A.
\<close>

theorem verb_supersedes_evaluation:
  "currentOperation target_A_subscribed = Some ''A'' \<and>
   fst (verb ''B'' (Inr 2) target_A_subscribed) = Inl (Opaque 0) \<and>
   calls_since target_A_subscribed (snd (verb ''B'' (Inr 2) target_A_subscribed)) =
     [Error (RikeCancelEvent ''A'' (EventRef (RikeOperationEvent ''B''))
        (Some (RikeOperationEvent ''B''))),
      Emit (RikeOperationEvent ''B''),
      Error (RikeErrorEvent ''B'' (Opaque 0))] \<and>
   delivered (t_rikeEvents (snd (verb ''B'' (Inr 2) target_A_subscribed))) =
     [Emit (RikeOperationEvent ''A''),
      Error (RikeCancelEvent ''A'' (EventRef (RikeOperationEvent ''B''))
        (Some (RikeOperationEvent ''B'')))] \<and>
   currentOperation (snd (verb ''B'' (Inr 2) target_A_subscribed)) = None \<and>
   fst (verb ''B'' (Inr 2) target_A_subscribed_silent) = Inr (''B'', 2) \<and>
   delivered (t_rikeEvents (snd (verb ''B'' (Inr 2) target_A_subscribed_silent))) =
     [Emit (RikeOperationEvent ''A''),
      Error (RikeCancelEvent ''A'' (EventRef (RikeOperationEvent ''B''))
        (Some (RikeOperationEvent ''B'')))] \<and>
   currentOperation (snd (verb ''B'' (Inr 2) target_A_subscribed_silent)) = Some ''B'' \<and>
   currentOperation target_A_started = Some ''A'' \<and>
   fst (verb ''B'' (Inr 2) target_A_started) = Inr (''B'', 2) \<and>
   calls_since target_A_started (snd (verb ''B'' (Inr 2) target_A_started)) =
     [Emit (RikeOperationEvent ''B'')]"
  by (simp add: target_A_subscribed_verb_B target_A_subscribed_verb_B_run
      target_A_subscribed_silent_verb_B target_A_subscribed_silent_delivered
      target_A_started_verb_B target_A_subscribed_fields target_A_started_fields
      currentOperation_def calls_since_def)

subsection \<open>The method \<^verbatim>\<open>cancel()\<close>\<close>

text \<open>
  On a target without an operation record \<^verbatim>\<open>cancel()\<close> returns false and changes nothing.
  On a target with an operation record and an observer whose callbacks return, whose
  emitter has not ended, it returns true, passes the cancel event of the operation to
  the emitter's \<^verbatim>\<open>error\<close> method and clears the record.
\<close>

lemma cancel_idle: "t_operation t = None \<Longrightarrow> cancel t = (Inr False, t)"
  by (simp add: cancel_def cancel_cause_idle)

lemma cancel_observed:
  assumes "t_operation t = Some current" and "t_observer t = Some obs"
    and "obs_error obs (EventRef (new_RikeCancelEvent (ev_operation current) None)) = None"
    and "obs_complete obs = None"
    and "\<not> emitter_ended t"
  shows "fst (cancel t) = Inr True"
    and "calls_since t (snd (cancel t)) = [Error (new_RikeCancelEvent (ev_operation current) None)]"
    and "currentOperation (snd (cancel t)) = None"
    and "emitter_ended (snd (cancel t))"
  using cancel_cause_observed [OF assms]
  by (simp_all add: cancel_def calls_since_def currentOperation_def emitter_ended_def)

text \<open>
  C2. The claim fails on the code, against the code's own documentation: \<^verbatim>\<open>cancel()\<close>
  returns true "if operation cancelled", and \<^verbatim>\<open>currentOperation\<close> is undefined when the
  operation is "not started, cancelled, or completed". On \<open>target_A_started\<close> operation A
  is in flight and its wrapped observable is not subscribed. \<^verbatim>\<open>cancel()\<close> returns true,
  makes no call on the emitter and keeps the record of A: \<^verbatim>\<open>currentOperation\<close> is still
  A. The response of A is forgotten all the same, so that subscribing to the wrapped
  observable of A afterwards does nothing. \<^verbatim>\<open>cleanup\<close>, which does the same work when the
  response ends, clears the record whether there is an observer or not. On a new
  target \<^verbatim>\<open>cancel()\<close> returns false and changes nothing, as the claim says.
\<close>

theorem cancel_unsubscribed_evaluation:
  "cancel fresh_target = (Inr False, fresh_target) \<and>
   currentOperation target_A_started = Some ''A'' \<and>
   fst (cancel target_A_started) = Inr True \<and>
   calls_since target_A_started (snd (cancel target_A_started)) = [] \<and>
   currentOperation (snd (cancel target_A_started)) = Some ''A'' \<and>
   t_response (snd (cancel target_A_started)) = None \<and>
   subscribe (''A'', 1) quiet_observer 5 (snd (cancel target_A_started)) =
     snd (cancel target_A_started) \<and>
   currentOperation (cleanup target_A_started) = None"
  by (simp add: cancel_idle fresh_target_def new_target_def target_A_started_cancel
      target_A_started_fields currentOperation_def calls_since_def subscribe_def cleanup_def
      Let_def)

subsection \<open>The fields of a cancel event\<close>

text \<open>
  C3, as the code has it. Every cancel event has \<^verbatim>\<open>complete\<close> true and \<^verbatim>\<open>cancel\<close> true,
  and its \<^verbatim>\<open>error\<close> equals its \<^verbatim>\<open>cancelledBy\<close>. The \<^verbatim>\<open>cancelledBy\<close> of a cancel event
  emitted while a verb method starts an operation is the start event of that operation;
  the \<^verbatim>\<open>cancelledBy\<close> of a cancel event emitted by \<^verbatim>\<open>cancel()\<close> is undefined, and so is
  its \<^verbatim>\<open>error\<close>. (The string "cancel" goes into the inherited private field
  \<^verbatim>\<open>_error\<close> only, which no getter of a cancel event returns.)
\<close>

theorem cancel_event_fields:
  "(ev_cancel ev \<longrightarrow> ev_complete ev \<and> ev_error ev = ev_cancelledBy ev) \<and>
   (c \<in> set (calls_since t (snd (verb operation request t))) \<and> ev_cancel (call_event c) \<longrightarrow>
      ev_cancelledBy (call_event c) = EventRef (RikeOperationEvent operation) \<and>
      ev_error (call_event c) = EventRef (RikeOperationEvent operation)) \<and>
   (c' \<in> set (calls_since t' (snd (cancel t'))) \<and> ev_cancel (call_event c') \<longrightarrow>
      ev_cancelledBy (call_event c') = Undefined \<and> ev_error (call_event c') = Undefined)"
proof (intro conjI impI)
  assume "ev_cancel ev"
  then show "ev_complete ev" by (cases ev) simp_all
next
  assume "ev_cancel ev"
  then show "ev_error ev = ev_cancelledBy ev" by (cases ev) simp_all
next
  assume "c \<in> set (calls_since t (snd (verb operation request t))) \<and> ev_cancel (call_event c)"
  then obtain cancelled where
    "call_event c = new_RikeCancelEvent cancelled (Some (RikeOperationEvent operation))"
    using verb_calls [of c t operation request] by auto
  then show "ev_cancelledBy (call_event c) = EventRef (RikeOperationEvent operation)"
    and "ev_error (call_event c) = EventRef (RikeOperationEvent operation)"
    by (simp_all add: new_RikeCancelEvent_fields)
next
  assume "c' \<in> set (calls_since t' (snd (cancel t'))) \<and> ev_cancel (call_event c')"
  then obtain cancelled where "call_event c' = new_RikeCancelEvent cancelled None"
    using cancel_cause_calls [of c' t' None] by (auto simp: cancel_def)
  then show "ev_cancelledBy (call_event c') = Undefined"
    and "ev_error (call_event c') = Undefined"
    by (simp_all add: new_RikeCancelEvent_fields)
qed

theorem cancel_event_fields_witness:
  "Error (RikeCancelEvent ''A'' (EventRef (RikeOperationEvent ''B''))
      (Some (RikeOperationEvent ''B'')))
     \<in> set (calls_since target_A_subscribed (snd (verb ''B'' (Inr 2) target_A_subscribed))) \<and>
   ev_cancel (RikeCancelEvent ''A'' (EventRef (RikeOperationEvent ''B''))
      (Some (RikeOperationEvent ''B'')) :: (string, nat) event) \<and>
   ev_complete (RikeCancelEvent ''A'' (EventRef (RikeOperationEvent ''B''))
      (Some (RikeOperationEvent ''B'')) :: (string, nat) event) \<and>
   ev_cancelledBy (RikeCancelEvent ''A'' (EventRef (RikeOperationEvent ''B''))
      (Some (RikeOperationEvent ''B'')) :: (string, nat) event) =
     EventRef (RikeOperationEvent ''B'') \<and>
   Error (RikeCancelEvent ''A'' (Str ''cancel'') None)
     \<in> set (calls_since target_A_subscribed (snd (cancel target_A_subscribed))) \<and>
   ev_error (RikeCancelEvent ''A'' (Str ''cancel'') None :: (string, nat) event) = Undefined"
  using cancel_event_fields
    [of "RikeCancelEvent ''A'' (EventRef (RikeOperationEvent ''B''))
           (Some (RikeOperationEvent ''B''))"
        "Error (RikeCancelEvent ''A'' (EventRef (RikeOperationEvent ''B''))
           (Some (RikeOperationEvent ''B'')))"
        target_A_subscribed "''B''" "Inr 2"
        "Error (RikeCancelEvent ''A'' (Str ''cancel'') None)" target_A_subscribed]
  by (simp add: target_A_subscribed_verb_B target_A_subscribed_cancel)

text \<open>
  The claim's sentinel fails: the cancel event that \<^verbatim>\<open>cancel()\<close> emits on
  \<open>target_A_subscribed\<close> has \<^verbatim>\<open>cancelledBy\<close> undefined, not the string "cancel".
\<close>

theorem cancelledBy_sentinel_counterexample:
  "calls_since target_A_subscribed (snd (cancel target_A_subscribed)) =
     [Error (RikeCancelEvent ''A'' (Str ''cancel'') None)] \<and>
   ev_cancelledBy (RikeCancelEvent ''A'' (Str ''cancel'') None :: (string, nat) event) =
     Undefined \<and>
   ev_cancelledBy (RikeCancelEvent ''A'' (Str ''cancel'') None :: (string, nat) event) \<noteq>
     Str ''cancel''"
  by (simp add: target_A_subscribed_cancel)

subsection \<open>An observer that throws, and an emitter that has ended\<close>

text \<open>
  When the observer's \<^verbatim>\<open>error\<close> callback throws, \<^verbatim>\<open>_cancel\<close> passes an error event to the
  emitter in place of the cancel event and throws: \<^verbatim>\<open>cancel()\<close> does not return, and a
  verb method emits no start event, passes an error event of its own to the emitter,
  which has ended by then, and throws.
\<close>

lemma target_A_throwing_fields:
  "t_operation target_A_throwing = Some (RikeOperationEvent ''A'')"
  "t_observer target_A_throwing = Some throwing_observer"
  "t_subscr target_A_throwing = Some 5"
  "t_rikeEvents target_A_throwing = [Emit (RikeOperationEvent ''A'')]"
  "t_after_end target_A_throwing = Some (Opaque 0)"
  by (simp_all add: target_A_throwing_def subscribe_def target_A_started_fields)

lemma cancel_observer_throws:
  "fst (cancel target_A_throwing) = Inl (Str ''boom'')"
  "calls_since target_A_throwing (snd (cancel target_A_throwing)) =
     [Error (RikeErrorEvent ''A'' (Str ''boom''))]"
  by (simp_all add: cancel_def cancel_cause_def Let_def target_A_throwing_fields
      throwing_observer_def rikeEvents_error_def emitter_ended_def calls_since_def)

lemma verb_observer_throws:
  "fst (verb ''B'' (Inr 2) target_A_throwing) = Inl (Opaque 0)"
  "calls_since target_A_throwing (snd (verb ''B'' (Inr 2) target_A_throwing)) =
     [Error (RikeErrorEvent ''A'' (Str ''boom'')), Error (RikeErrorEvent ''B'' (Str ''boom''))]"
  by (simp_all add: verb_def startOperation_def cancel_cause_def Let_def report_def
      target_A_throwing_fields throwing_observer_def rikeEvents_error_def emitter_ended_def
      calls_since_def)

section \<open>Properties of the protocols\<close>

subsection \<open>The protocol of an operation derived from a target\<close>

text \<open>
  C4. An operation derived from a target without naming a protocol uses the target's
  protocol. An operation that names a protocol uses that protocol unchanged when the
  target's protocol is \<^verbatim>\<open>HTTP_PROTOCOL\<close>. Otherwise its protocol is a new
  \<^verbatim>\<open>PrepareRequestProtocol\<close> around the named protocol: its \<^verbatim>\<open>prepareRequest\<close> runs the
  \<^verbatim>\<open>prepareRequest\<close> of the target's protocol first and the \<^verbatim>\<open>prepareRequest\<close> of the
  named protocol on the result; writing and reading are those of the named protocol.
\<close>

theorem operation_protocol_composition:
  "op_protocol (RikeTargetImpl_operation target_protocol name None) = target_protocol \<and>
   op_protocol (RikeTargetImpl_operation HttpProtocol name (Some p)) = p \<and>
   (target_protocol \<noteq> HttpProtocol \<longrightarrow>
      op_protocol (RikeTargetImpl_operation target_protocol name (Some p)) =
        PrepareRequestProtocol p (prepareRequest target_protocol) False (handleError p) \<and>
      prepareRequest (op_protocol (RikeTargetImpl_operation target_protocol name (Some p)))
          options =
        and_then (prepareRequest target_protocol options) (prepareRequest p) \<and>
      writeRequest lib (op_protocol (RikeTargetImpl_operation target_protocol name (Some p)))
          request options =
        writeRequest lib p request options \<and>
      readResponse lib (op_protocol (RikeTargetImpl_operation target_protocol name (Some p)))
          response =
        readResponse lib p response)"
  by (cases target_protocol) (simp_all add: RikeTargetImpl_operation_def prepareRequestWith_def)

text \<open>
  With the target adding one and the operation doubling, the options 5 become 12: one
  is added first. The other order would give 11.
\<close>

theorem operation_protocol_composition_witness:
  "add_one_target \<noteq> HttpProtocol \<and>
   prepareRequest
     (op_protocol (RikeTargetImpl_operation add_one_target ''read'' (Some double_operation))) 5 =
     Inr 12 \<and>
   prepareRequest add_one_target 5 = Inr 6 \<and>
   prepareRequest double_operation 6 = Inr 12 \<and>
   op_protocol (RikeTargetImpl_operation add_one_target ''read'' None) = add_one_target \<and>
   op_protocol (RikeTargetImpl_operation HttpProtocol ''read'' (Some double_operation)) =
     double_operation"
  using operation_protocol_composition [of add_one_target "''read''" double_operation 5]
  by (simp add: add_one_target_def double_operation_def prepareRequestWith_def and_then_def)

subsection \<open>Replacing the writer and the reader\<close>

text \<open>
  C5. For every protocol \<open>base\<close> and functions \<open>f\<close> and \<open>g\<close>, the protocol
  \<^verbatim>\<open>base.writeRequestWith(f).readResponseWith(g)\<close> writes requests with \<open>f\<close>, reads
  responses with \<open>g\<close>, prepares requests as \<open>base\<close> does and has the \<^verbatim>\<open>handleError\<close> of
  \<open>base\<close>. The constructors of the two decorators assign the fields of the new object
  only; protocols are values here, and the result holds \<open>base\<close> itself as the protocol
  wrapped innermost.
\<close>

theorem write_read_combinators:
  "writeRequest lib (readResponseWith (writeRequestWith base f) g) request options =
     f request options \<and>
   readResponse lib (readResponseWith (writeRequestWith base f) g) response = g response \<and>
   prepareRequest (readResponseWith (writeRequestWith base f) g) options =
     prepareRequest base options \<and>
   handleError (readResponseWith (writeRequestWith base f) g) = handleError base \<and>
   readResponseWith (writeRequestWith base f) g =
     ReadResponseProtocol (WriteRequestProtocol base f (handleError base)) g (handleError base)"
  by (simp add: writeRequestWith_def)

theorem write_read_combinators_witness:
  "writeRequest no_lib
     (readResponseWith (writeRequestWith add_one_target (\<lambda>request options. Inr (request + options)))
        (\<lambda>response. Inr (response * 3))) 2 5 = Inr 7 \<and>
   readResponse no_lib
     (readResponseWith (writeRequestWith add_one_target (\<lambda>request options. Inr (request + options)))
        (\<lambda>response. Inr (response * 3))) 4 = Inr 12 \<and>
   prepareRequest
     (readResponseWith (writeRequestWith add_one_target (\<lambda>request options. Inr (request + options)))
        (\<lambda>response. Inr (response * 3))) 5 = Inr 6 \<and>
   handleError
     (readResponseWith (writeRequestWith add_one_target (\<lambda>request options. Inr (request + options)))
        (\<lambda>response. Inr (response * 3))) = handleError add_one_target"
  using write_read_combinators
    [of no_lib add_one_target "\<lambda>request options. Inr (request + options)"
        "\<lambda>response. Inr (response * 3)" 2 5 4]
  by (simp add: add_one_target_def prepareRequestWith_def and_then_def)

section \<open>Properties of \<^verbatim>\<open>relativeUrl\<close>\<close>

subsection \<open>What the regular expression matches\<close>

lemma conc_Nil_iff: "[] \<in> conc A B \<longleftrightarrow> [] \<in> A \<and> [] \<in> B"
  by (auto simp: conc_def)

lemma conc_Cons_iff:
  "c # w \<in> conc A B \<longleftrightarrow>
     (\<exists>u v. w = u @ v \<and> c # u \<in> A \<and> v \<in> B) \<or> ([] \<in> A \<and> c # w \<in> B)"
  by (auto simp: conc_def Cons_eq_append_conv)

lemma star_Cons_decompose:
  assumes "x \<in> star A" and "x = c # w"
  shows "\<exists>u v. w = u @ v \<and> c # u \<in> A \<and> v \<in> star A"
  using assms
proof (induction arbitrary: w rule: star.induct)
  case star_empty
  then show ?case by simp
next
  case (star_step u v)
  show ?case
  proof (cases u)
    case Nil
    with star_step show ?thesis by simp
  next
    case (Cons d u')
    with star_step.prems have "d = c" and "w = u' @ v" by simp_all
    with Cons star_step.hyps show ?thesis by blast
  qed
qed

lemma star_Cons_iff:
  "c # w \<in> star A \<longleftrightarrow> (\<exists>u v. w = u @ v \<and> c # u \<in> A \<and> v \<in> star A)"
proof
  assume "c # w \<in> star A"
  then show "\<exists>u v. w = u @ v \<and> c # u \<in> A \<and> v \<in> star A"
    by (rule star_Cons_decompose) simp
next
  assume "\<exists>u v. w = u @ v \<and> c # u \<in> A \<and> v \<in> star A"
  then obtain u v where "w = u @ v" "c # u \<in> A" "v \<in> star A" by blast
  then show "c # w \<in> star A" using star_step [of "c # u" A v] by simp
qed

lemma nullable_iff: "nullable r \<longleftrightarrow> [] \<in> lang r"
  by (induction r) (auto simp: conc_Nil_iff intro: star_empty)

lemma conc_iff: "w \<in> conc A B \<longleftrightarrow> (\<exists>u v. w = u @ v \<and> u \<in> A \<and> v \<in> B)"
  by (auto simp: conc_def)

lemma lang_deriv: "w \<in> lang (deriv c r) \<longleftrightarrow> c # w \<in> lang r"
proof (induction r arbitrary: w)
  case (Seq r s)
  have left: "w \<in> conc (lang (deriv c r)) (lang s) \<longleftrightarrow>
      (\<exists>u v. w = u @ v \<and> c # u \<in> lang r \<and> v \<in> lang s)"
    by (simp add: conc_iff Seq.IH)
  show ?case
    by (simp add: left Seq.IH conc_Cons_iff nullable_iff)
next
  case (Star r)
  have "w \<in> conc (lang (deriv c r)) (star (lang r)) \<longleftrightarrow>
      (\<exists>u v. w = u @ v \<and> c # u \<in> lang r \<and> v \<in> star (lang r))"
    by (simp add: conc_iff Star.IH)
  then show ?case by (simp add: star_Cons_iff)
qed auto

lemma matches_at_start_iff:
  "matches_at_start r s \<longleftrightarrow> (\<exists>p q. s = p @ q \<and> p \<in> lang r)"
proof (induction s arbitrary: r)
  case Nil
  then show ?case by (simp add: nullable_iff)
next
  case (Cons c cs)
  have "(\<exists>p q. c # cs = p @ q \<and> p \<in> lang r) \<longleftrightarrow>
        [] \<in> lang r \<or> (\<exists>p' q. cs = p' @ q \<and> c # p' \<in> lang r)"
    by (auto simp: Cons_eq_append_conv)
  with Cons show ?case by (simp add: nullable_iff lang_deriv)
qed

lemma star_word: "w \<in> star {[c] | c. is_word c} \<longleftrightarrow> (\<forall>c \<in> set w. is_word c)"
proof
  assume "w \<in> star {[c] | c. is_word c}"
  then show "\<forall>c \<in> set w. is_word c" by (induction rule: star.induct) auto
next
  assume "\<forall>c \<in> set w. is_word c"
  then show "w \<in> star {[c] | c. is_word c}"
  proof (induction w)
    case Nil
    show ?case by (rule star_empty)
  next
    case (Cons c w)
    then have "[c] \<in> {[c] | c. is_word c}" and "w \<in> star {[c] | c. is_word c}" by auto
    then have "[c] @ w \<in> star {[c] | c. is_word c}" by (rule star_step)
    then show ?case by simp
  qed
qed

lemma lang_full_url:
  "p \<in> lang full_url \<longleftrightarrow>
     p = ''//'' \<or> (\<exists>scheme. (\<forall>c \<in> set scheme. is_word c) \<and> p = scheme @ ''://'')"
  by (auto simp: full_url_def conc_def star_word)

lemma split_prefix:
  "(\<exists>p q. url = p @ q \<and> (p = a \<or> (\<exists>scheme. P scheme \<and> p = scheme @ b))) \<longleftrightarrow>
   (\<exists>rest. url = a @ rest) \<or> (\<exists>scheme rest. P scheme \<and> url = scheme @ b @ rest)"
  by (metis append.assoc)

lemma matches_full_url:
  "matches_at_start full_url url \<longleftrightarrow>
     (\<exists>rest. url = ''//'' @ rest) \<or>
     (\<exists>scheme rest. (\<forall>c \<in> set scheme. is_word c) \<and> url = scheme @ ''://'' @ rest)"
  unfolding matches_at_start_iff lang_full_url by (rule split_prefix)

lemma take_1_slash: "take 1 url = ''/'' \<longleftrightarrow> (\<exists>rest. url = ''/'' @ rest)"
  by (cases url) auto

lemma relativeUrl_examples:
  "relativeUrl (Some ''/api'') ''users'' = ''/api/users''"
  "relativeUrl (Some ''/api'') ''/users'' = ''/users''"
  "relativeUrl (Some ''/api'') ''http://x/y'' = ''http://x/y''"
  "relativeUrl None ''users'' = ''users''"
  by (simp_all add: relativeUrl_def full_url_def is_word_def)

subsection \<open>The rule of \<^verbatim>\<open>relativeUrl\<close>\<close>

text \<open>
  C9. For every base URL and URL, \<^verbatim>\<open>relativeUrl\<close> returns the URL unchanged when the base
  is undefined or empty, when the URL begins with "/", or when the URL begins with a
  scheme followed by "://" (a scheme is a run of characters of \<^verbatim>\<open>[A-Za-z0-9_]\<close>, as the
  expression \<^verbatim>\<open>\w*\<close> has it, and may be empty) or with "//"; otherwise it returns
  base + "/" + url. The four examples of the specification follow.
\<close>

theorem relativeUrl_rule:
  "relativeUrl baseUrl url =
     (if baseUrl = None \<or> baseUrl = Some [] \<or>
         (\<exists>rest. url = ''/'' @ rest) \<or>
         (\<exists>scheme rest. (\<forall>c \<in> set scheme. is_word c) \<and> url = scheme @ ''://'' @ rest) \<or>
         (\<exists>rest. url = ''//'' @ rest)
      then url else the baseUrl @ ''/'' @ url) \<and>
   relativeUrl (Some ''/api'') ''users'' = ''/api/users'' \<and>
   relativeUrl (Some ''/api'') ''/users'' = ''/users'' \<and>
   relativeUrl (Some ''/api'') ''http://x/y'' = ''http://x/y'' \<and>
   relativeUrl None ''users'' = ''users''"
proof (intro conjI)
  show "relativeUrl baseUrl url =
     (if baseUrl = None \<or> baseUrl = Some [] \<or>
         (\<exists>rest. url = ''/'' @ rest) \<or>
         (\<exists>scheme rest. (\<forall>c \<in> set scheme. is_word c) \<and> url = scheme @ ''://'' @ rest) \<or>
         (\<exists>rest. url = ''//'' @ rest)
      then url else the baseUrl @ ''/'' @ url)"
  proof (cases baseUrl)
    case None
    then show ?thesis by (simp add: relativeUrl_def)
  next
    case (Some base)
    have "relativeUrl (Some base) url =
      (if base = [] \<or> take 1 url = ''/'' \<or> matches_at_start full_url url then url
       else base @ ''/'' @ url)"
      by (simp add: relativeUrl_def)
    then show ?thesis
      unfolding Some take_1_slash matches_full_url by auto
  qed
qed (rule relativeUrl_examples)+

theorem relativeUrl_rule_witness:
  "is_word CHR ''h'' \<and>
   relativeUrl (Some ''/api'') ''http://x/y'' = ''http://x/y'' \<and>
   relativeUrl (Some ''/api'') ''users'' = ''/api/users''"
proof -
  have "(\<forall>c \<in> set ''http''. is_word c) \<and> ''http://x/y'' = ''http'' @ ''://'' @ ''x/y''"
    by (simp add: is_word_def)
  then have scheme:
    "\<exists>scheme rest. (\<forall>c \<in> set scheme. is_word c) \<and> ''http://x/y'' = scheme @ ''://'' @ rest"
    by blast
  have "is_word CHR ''h''" by (simp add: is_word_def)
  then show ?thesis
    using scheme relativeUrl_rule [of "Some ''/api''" "''http://x/y''"] by presburger
qed

section \<open>Properties of the error responses\<close>

subsection \<open>Idempotence\<close>

lemma toErrorResponse_result:
  "toErrorResponse parse x = Inr y \<Longrightarrow> \<exists>r e. y = ErrorResponse r e"
  by (auto simp: toErrorResponse_def and_then_def defaultErrorResponse_def Let_def
      split: error_value.splits option.splits sum.splits if_splits)

lemma toErrorResponse_email:
  "toErrorResponse parse (Plain (JObj [(''email'', JStr ''required'')])) =
     Inr (ErrorResponse (Response ''500'' (Some ''Unknown error'') None None)
            (JObj [(''email'', JArr [JObj [(''message'', JStr ''required'')]])]))"
  by (simp add: toErrorResponse_def toFieldErrors_def toFieldErrorArray_def toFieldError_def
      notEmptyError_def set_prop_def syntheticResponse_def and_then_def)

text \<open>
  C6. \<^verbatim>\<open>toErrorResponse\<close> is idempotent: applying it to its own result changes nothing,
  because an instance of \<^verbatim>\<open>ErrorResponse\<close> is returned as it is. Where the first call
  throws there is no result to apply it to, and the composition throws the same value.
\<close>

theorem toErrorResponse_idempotent:
  "and_then (toErrorResponse parse x) (toErrorResponse parse) = toErrorResponse parse x \<and>
   toErrorResponse parse (ErrorResponse response errors) = Inr (ErrorResponse response errors)"
proof
  show "and_then (toErrorResponse parse x) (toErrorResponse parse) = toErrorResponse parse x"
  proof (cases "toErrorResponse parse x")
    case (Inl e)
    then show ?thesis by (simp add: and_then_def)
  next
    case (Inr y)
    then obtain r e where "y = ErrorResponse r e"
      using toErrorResponse_result by blast
    with Inr show ?thesis by (simp add: and_then_def toErrorResponse_def)
  qed
  show "toErrorResponse parse (ErrorResponse response errors) = Inr (ErrorResponse response errors)"
    by (simp add: toErrorResponse_def)
qed

theorem toErrorResponse_idempotent_witness:
  "and_then (toErrorResponse no_json (Plain (JObj [(''email'', JStr ''required'')])))
     (toErrorResponse no_json) =
   Inr (ErrorResponse (Response ''500'' (Some ''Unknown error'') None None)
          (JObj [(''email'', JArr [JObj [(''message'', JStr ''required'')]])]))"
  using toErrorResponse_idempotent [of no_json "Plain (JObj [(''email'', JStr ''required'')])"]
  by (simp add: toErrorResponse_email)

subsection \<open>The default error response\<close>









subsection \<open>Objects of scalars\<close>

lemma scalar_to_string: "is_scalar v \<Longrightarrow> to_string v = Inr (projr (to_string v))"
  by (cases v) simp_all

lemma toFieldError_scalar:
  "is_scalar v \<Longrightarrow> toFieldError v = Inr (JObj [(''message'', JStr (projr (to_string v)))])"
  by (cases v) (simp_all add: toFieldError_def and_then_def)

lemma notEmptyError_message: "notEmptyError (JObj [(''message'', JStr s)]) \<longleftrightarrow> s \<noteq> []"
  by (simp add: notEmptyError_def)

lemma toFieldErrorArray_scalar:
  "is_scalar v \<Longrightarrow> v \<noteq> JNum [] \<Longrightarrow>
   toFieldErrorArray v =
     Inr (if v = JStr [] then [] else [JObj [(''message'', JStr (projr (to_string v)))]])"
  by (cases v)
    (auto simp: toFieldErrorArray_def toFieldError_def and_then_def notEmptyError_message)

lemma assign_append:
  "field \<notin> fst ` set result \<Longrightarrow> assign result field v = result @ [(field, v)]"
  by (induction result) auto

text \<open>
  The loop over fields that hold scalars: every field whose scalar is not the empty
  string is added to the result, in order.
\<close>

lemma field_loop_scalars:
  assumes "\<not> has_own errors ''hasOwnProperty''"
    and "\<forall>k \<in> set ks. is_scalar (get_prop errors k) \<and> get_prop errors k \<noteq> JNum [] \<and>
           k \<noteq> ''__proto__''"
    and "distinct ks" and "set ks \<inter> fst ` set result = {}"
  shows "field_loop errors ks result hasErrors =
           Inr (result @
                map (\<lambda>k. (k, field_entry (get_prop errors k)))
                  (filter (\<lambda>k. get_prop errors k \<noteq> JStr []) ks),
                hasErrors \<or> filter (\<lambda>k. get_prop errors k \<noteq> JStr []) ks \<noteq> [])"
  using assms
proof (induction ks arbitrary: result hasErrors)
  case Nil
  then show ?case by simp
next
  case (Cons k ks)
  from Cons.prems have k: "is_scalar (get_prop errors k)" "get_prop errors k \<noteq> JNum []"
    "k \<noteq> ''__proto__''" "k \<notin> fst ` set result" "k \<notin> set ks"
    by auto
  from Cons.prems have rest:
    "\<forall>k \<in> set ks. is_scalar (get_prop errors k) \<and> get_prop errors k \<noteq> JNum [] \<and>
       k \<noteq> ''__proto__''"
    "distinct ks" "set ks \<inter> fst ` set result = {}"
    by auto
  show ?case
  proof (cases "get_prop errors k = JStr []")
    case True
    then show ?thesis
      using Cons.prems(1) Cons.IH [OF Cons.prems(1) rest, of hasErrors] k
      by (simp add: toFieldErrorArray_scalar and_then_def)
  next
    case False
    have step: "set_prop result k (field_entry (get_prop errors k)) =
        result @ [(k, field_entry (get_prop errors k))]"
      using k by (simp add: set_prop_def assign_append)
    have "set ks \<inter> fst ` set (result @ [(k, field_entry (get_prop errors k))]) = {}"
      using rest k by auto
    from Cons.IH [OF Cons.prems(1) rest(1) rest(2) this, of True] False show ?thesis
      using Cons.prems(1) k step
      by (simp add: toFieldErrorArray_scalar and_then_def field_entry_def)
  qed
qed

lemma filter_keys:
  assumes "\<forall>(k, v) \<in> set qs. g k = v"
  shows "map (\<lambda>k. (k, e (g k))) (filter (\<lambda>k. g k \<noteq> x) (map fst qs)) =
         map (\<lambda>(k, v). (k, e v)) (filter (\<lambda>(k, v). v \<noteq> x) qs)"
    and "filter (\<lambda>k. g k \<noteq> x) (map fst qs) = [] \<longleftrightarrow> filter (\<lambda>(k, v). v \<noteq> x) qs = []"
  using assms by (induction qs) auto

text \<open>
  C8, as the code has it. For every plain object whose fields hold scalars (booleans,
  numbers, strings) and are not named \<^verbatim>\<open>hasOwnProperty\<close> or \<^verbatim>\<open>__proto__\<close>, the extraction
  of field errors gives each field whose scalar is not the empty string the list of one
  error, with the string of the scalar as message and no code. A field that holds the
  empty string is left out, and the result is \<^verbatim>\<open>undefined\<close> when no field is left. In
  particular \<^verbatim>\<open>toErrorResponse\<close> of \<^verbatim>\<open>{"email": "required"}\<close> has the field errors
  \<^verbatim>\<open>{"email": [{message: "required"}]}\<close>. The string of a number is the one \<^verbatim>\<open>toString()\<close>
  prints, which is not empty.
\<close>

theorem scalar_field_errors:
  assumes "distinct (map fst ps)"
    and "\<forall>(k, v) \<in> set ps.
           is_scalar v \<and> v \<noteq> JNum [] \<and> k \<noteq> ''hasOwnProperty'' \<and> k \<noteq> ''__proto__''"
  shows "toFieldErrors (JObj ps) =
           Inr (if filter (\<lambda>(k, v). v \<noteq> JStr []) ps = [] then JUndefined
                else JObj (map (\<lambda>(k, v). (k, JArr [JObj [(''message'', JStr (projr (to_string v)))]]))
                       (filter (\<lambda>(k, v). v \<noteq> JStr []) ps))) \<and>
         toErrorResponse parse (Plain (JObj [(''email'', JStr ''required'')])) =
           Inr (ErrorResponse (Response ''500'' (Some ''Unknown error'') None None)
                  (JObj [(''email'', JArr [JObj [(''message'', JStr ''required'')]])])) \<and>
         get_prop (JObj [(''message'', JStr ''required'')]) ''code'' = JUndefined"
proof (intro conjI)
  have own: "\<not> has_own (JObj ps) ''hasOwnProperty''"
    using assms(2) by (auto simp: map_of_eq_None_iff image_iff)
  have val: "\<forall>(k, v) \<in> set ps. get_prop (JObj ps) k = v"
    using assms(1) by auto
  have vals: "\<forall>k \<in> set (map fst ps).
      is_scalar (get_prop (JObj ps) k) \<and> get_prop (JObj ps) k \<noteq> JNum [] \<and> k \<noteq> ''__proto__''"
  proof
    fix k assume "k \<in> set (map fst ps)"
    then obtain v where kv: "(k, v) \<in> set ps" by auto
    then have "get_prop (JObj ps) k = v" using assms(1) by simp
    with kv assms(2) show
      "is_scalar (get_prop (JObj ps) k) \<and> get_prop (JObj ps) k \<noteq> JNum [] \<and> k \<noteq> ''__proto__''"
      by auto
  qed
  have "field_loop (JObj ps) (map fst ps) [] False =
      Inr (map (\<lambda>k. (k, field_entry (get_prop (JObj ps) k)))
             (filter (\<lambda>k. get_prop (JObj ps) k \<noteq> JStr []) (map fst ps)),
           filter (\<lambda>k. get_prop (JObj ps) k \<noteq> JStr []) (map fst ps) \<noteq> [])"
    using field_loop_scalars [OF own vals assms(1), of "[]" False] by simp
  then have loop: "field_loop (JObj ps) (map fst ps) [] False =
      Inr (map (\<lambda>(k, v). (k, field_entry v)) (filter (\<lambda>(k, v). v \<noteq> JStr []) ps),
           filter (\<lambda>(k, v). v \<noteq> JStr []) ps \<noteq> [])"
    unfolding filter_keys [OF val] .
  have entry: "(\<lambda>(k, v). (k, field_entry v)) =
      (\<lambda>(k, v). (k, JArr [JObj [(''message'', JStr (projr (to_string v)))]]))"
    by (simp add: field_entry_def)
  have "toFieldErrors (JObj ps) =
      and_then (field_loop (JObj ps) (map fst ps) [] False)
        (\<lambda>(result, hasErrors). Inr (if hasErrors then JObj result else JUndefined))"
    by (simp add: toFieldErrors_def)
  then show "toFieldErrors (JObj ps) =
           Inr (if filter (\<lambda>(k, v). v \<noteq> JStr []) ps = [] then JUndefined
                else JObj (map (\<lambda>(k, v). (k, JArr [JObj [(''message'', JStr (projr (to_string v)))]]))
                       (filter (\<lambda>(k, v). v \<noteq> JStr []) ps)))"
    unfolding loop entry by (simp add: and_then_def)
  show "toErrorResponse parse (Plain (JObj [(''email'', JStr ''required'')])) =
           Inr (ErrorResponse (Response ''500'' (Some ''Unknown error'') None None)
                  (JObj [(''email'', JArr [JObj [(''message'', JStr ''required'')]])]))"
    by (rule toErrorResponse_email)
  show "get_prop (JObj [(''message'', JStr ''required'')]) ''code'' = JUndefined"
    by simp
qed

theorem scalar_field_errors_witness:
  "toFieldErrors
     (JObj [(''email'', JStr ''required''), (''age'', JNum ''1e+21''), (''note'', JStr [])]) =
   Inr (JObj [(''email'', JArr [JObj [(''message'', JStr ''required'')]]),
              (''age'', JArr [JObj [(''message'', JStr ''1e+21'')]])])"
  using scalar_field_errors
    [of "[(''email'', JStr ''required''), (''age'', JNum ''1e+21''), (''note'', JStr [])]"]
  by simp

text \<open>
  The claim for every scalar fails at the empty string: the field is left out, and with
  no other field the extraction finds no errors at all.
\<close>

theorem empty_string_field_counterexample:
  "is_scalar (JStr []) \<and>
   toFieldErrors (JObj [(''email'', JStr [])]) = Inr JUndefined \<and>
   toFieldErrors (JObj [(''email'', JStr [])]) \<noteq>
     Inr (JObj [(''email'', JArr [JObj [(''message'', JStr [])]])])"
  by (simp add: toFieldErrors_def toFieldErrorArray_def toFieldError_def
      notEmptyError_def set_prop_def and_then_def)

subsection \<open>Inputs on which the functions throw\<close>

lemma toErrorResponse_null: "toErrorResponse parse (Plain JNull) = Inl TypeError"
  by (simp add: toErrorResponse_def)

lemma toErrorResponse_no_headers:
  "toErrorResponse parse (Resp (Response code text None b)) = Inl TypeError"
  by (simp add: toErrorResponse_def)

lemma toFieldErrors_hasOwnProperty:
  "toFieldErrors (JObj [(''hasOwnProperty'', JStr ''x'')]) = Inl TypeError"
  by (simp add: toFieldErrors_def and_then_def)

end
